theory Spec2Isabelle
  imports Complex_Main "HOL-Library.Sublist"
begin

section \<open>JavaScript strings and the regular expressions of the output normalizer\<close>

text \<open>
  A JavaScript string is modelled as a \<^typ>\<open>string\<close>, one \<^typ>\<open>char\<close> per code unit
  (code units below 256). The regular expressions of \<open>outputNormalizer.ts\<close> are
  translated one by one into matchers: a matcher looks at the text from the current
  position on and returns the length of the match that the JavaScript engine finds
  there, if any. None of the patterns of the file can match the empty string.
\<close>

definition newline :: char where
  "newline = CHR 0x0A"

definition carriage_return :: char where
  "carriage_return = CHR 0x0D"

definition js_whitespace :: "char \<Rightarrow> bool" where
  \<comment> \<open>the class \<open>\s\<close>, which is also what \<open>trim\<close> and \<open>trimEnd\<close> strip\<close>
  "js_whitespace c = (c = CHR 0x09 \<or> c = CHR 0x0A \<or> c = CHR 0x0B \<or> c = CHR 0x0C
     \<or> c = CHR 0x0D \<or> c = CHR 0x20 \<or> c = CHR 0xA0)"

definition js_line_terminator :: "char \<Rightarrow> bool" where
  \<comment> \<open>the characters after which \<open>^\<close> matches under the \<open>m\<close> flag\<close>
  "js_line_terminator c = (c = CHR 0x0A \<or> c = CHR 0x0D)"

definition trimEnd :: "string \<Rightarrow> string" where
  "trimEnd s = rev (dropWhile js_whitespace (rev s))"

definition trim :: "string \<Rightarrow> string" where
  "trim s = trimEnd (dropWhile js_whitespace s)"

definition js_includes :: "string \<Rightarrow> string \<Rightarrow> bool" where
  \<comment> \<open>\<open>s.includes(pat)\<close>\<close>
  "js_includes s pat = (\<exists>i \<in> set (upt 0 (Suc (length s))). prefix pat (drop i s))"

definition lower_char :: "char \<Rightarrow> char" where
  \<comment> \<open>the lower-case form of a code unit below 256 (ASCII and Latin-1 capitals)\<close>
  "lower_char c =
     (let n = (of_char c :: nat)
      in if (65 \<le> n \<and> n \<le> 90) \<or> (192 \<le> n \<and> n \<le> 222 \<and> n \<noteq> 215)
         then char_of (n + 32) else c)"

definition toLowerCase :: "string \<Rightarrow> string" where
  "toLowerCase s = map lower_char s"

fun split_lines :: "string \<Rightarrow> string list" where
  \<comment> \<open>\<open>s.split('\n')\<close>\<close>
  "split_lines [] = [[]]"
| "split_lines (c # cs) =
     (if c = newline then [] # split_lines cs
      else (case split_lines cs of [] \<Rightarrow> [[c]] | l # ls \<Rightarrow> (c # l) # ls))"

fun join :: "string \<Rightarrow> string list \<Rightarrow> string" where
  \<comment> \<open>\<open>xs.join(sep)\<close>\<close>
  "join sep [] = []"
| "join sep [x] = x"
| "join sep (x # y # ys) = x @ sep @ join sep (y # ys)"

fun find_sub :: "string \<Rightarrow> string \<Rightarrow> nat option" where
  \<comment> \<open>index of the first occurrence of a pattern\<close>
  "find_sub pat [] = (if pat = [] then Some 0 else None)"
| "find_sub pat (c # cs) =
     (if prefix pat (c # cs) then Some 0 else map_option Suc (find_sub pat cs))"

type_synonym matcher = "string \<Rightarrow> nat option"

text \<open>
  \<open>s.replace(/re/g, f)\<close>: the text is scanned from the left; where the expression
  matches, the match is replaced by \<open>f(match)\<close> and the scan goes on behind the match;
  elsewhere the character is copied.
\<close>

function replace_g :: "matcher \<Rightarrow> (string \<Rightarrow> string) \<Rightarrow> string \<Rightarrow> string" where
  "replace_g m f [] = []"
| "replace_g m f (c # cs) =
     (case m (c # cs) of
        None \<Rightarrow> c # replace_g m f cs
      | Some n \<Rightarrow>
          if n = 0 then c # replace_g m f cs
          else f (take n (c # cs)) @ replace_g m f (drop n (c # cs)))"
  by pat_completeness auto
termination
  by (relation "measure (\<lambda>(m, f, s). length s)") auto

text \<open>
  The same scan with a replacement callback that also updates a variable of the
  enclosing function (the list \<open>extractedBlocks\<close>).
\<close>

function replace_g_st ::
  "matcher \<Rightarrow> (string \<Rightarrow> 'st \<Rightarrow> string \<times> 'st) \<Rightarrow> string \<Rightarrow> 'st \<Rightarrow> string \<times> 'st" where
  "replace_g_st m f [] st = ([], st)"
| "replace_g_st m f (c # cs) st =
     (case m (c # cs) of
        None \<Rightarrow> (case replace_g_st m f cs st of (r, st') \<Rightarrow> (c # r, st'))
      | Some n \<Rightarrow>
          if n = 0 then (case replace_g_st m f cs st of (r, st') \<Rightarrow> (c # r, st'))
          else (case f (take n (c # cs)) st of
                  (rep, st1) \<Rightarrow>
                    (case replace_g_st m f (drop n (c # cs)) st1 of
                       (r, st2) \<Rightarrow> (rep @ r, st2))))"
  by pat_completeness auto
termination
  by (relation "measure (\<lambda>(m, f, s, st). length s)") auto

text \<open>
  The scan for an expression that starts with \<open>^\<close> under the flags \<open>gm\<close>: the
  expression is tried only at the start of the text and behind a line terminator.
\<close>

function replace_gm :: "matcher \<Rightarrow> (string \<Rightarrow> string) \<Rightarrow> bool \<Rightarrow> string \<Rightarrow> string" where
  "replace_gm m f bol [] = []"
| "replace_gm m f bol (c # cs) =
     (case (if bol then m (c # cs) else None) of
        None \<Rightarrow> c # replace_gm m f (js_line_terminator c) cs
      | Some n \<Rightarrow>
          if n = 0 then c # replace_gm m f (js_line_terminator c) cs
          else f (take n (c # cs))
                 @ replace_gm m f (js_line_terminator (last (take n (c # cs)))) (drop n (c # cs)))"
  by pat_completeness auto
termination
  by (relation "measure (\<lambda>(m, f, bol, s). length s)") auto

definition match_lit :: "string \<Rightarrow> matcher" where
  \<comment> \<open>a literal pattern\<close>
  "match_lit pat s = (if prefix pat s then Some (length pat) else None)"

definition guided_marker :: string where
  "guided_marker = '':::ShowGuided(ShowGuided=Yes)''"

definition advanced_marker :: string where
  "advanced_marker = '':::ShowAdvanced(ShowAdvanced=Yes)''"

definition match_block :: "string \<Rightarrow> matcher" where
  \<comment> \<open>\<open>/(:::ShowX\(ShowX=Yes\)[\s\S]*?:::)/\<close>: the marker, then lazily up to the next \<open>:::\<close>\<close>
  "match_block marker s =
     (if prefix marker s then
        (case find_sub '':::'' (drop (length marker) s) of
           None \<Rightarrow> None
         | Some i \<Rightarrow> Some (length marker + i + 3))
      else None)"

definition match_blanks_before_item :: "nat \<Rightarrow> matcher" where
  \<comment> \<open>\<open>/(>\n){k}(>[-\[])/\<close>: k blank blockquote lines, then a line starting \<open>>-\<close> or \<open>>[\<close>\<close>
  "match_blanks_before_item k s =
     (let blanks = concat (replicate k [CHR ''>'', newline]) in
      if prefix (blanks @ ''>-'') s \<or> prefix (blanks @ ''>['') s
      then Some (2 * k + 2) else None)"

definition last2 :: "string \<Rightarrow> string" where
  \<comment> \<open>the group \<open>$1\<close> of the expressions whose last two characters are the group\<close>
  "last2 m = drop (length m - 2) m"

function quote_lines_len :: "string \<Rightarrow> nat" where
  \<comment> \<open>\<open>(?:>[^\n]*\n)*\<close>, greedy: the blockquote lines that follow\<close>
  "quote_lines_len s =
     (case s of
        [] \<Rightarrow> 0
      | c # r \<Rightarrow>
          if c = CHR ''>'' then
            (let line = takeWhile (\<lambda>x. x \<noteq> newline) r in
             case drop (length line) r of
               [] \<Rightarrow> 0
             | _ # r' \<Rightarrow> 1 + length line + 1 + quote_lines_len r')
          else 0)"
  by pat_completeness auto
termination
proof (relation "measure length", goal_cases)
  case 1
  show ?case by simp
next
  case (2 s c r line x r')
  have "length (drop (length line) r) \<le> length r" by simp
  with 2 show ?case by (auto simp del: length_drop)
qed

definition match_callout :: "string \<Rightarrow> matcher" where
  \<comment> \<open>\<open>/>\s*\[tag\][^\n]*\n((?:>[^\n]*\n)*)/\<close> for the tags \<open>+alert\<close>, \<open>!note\<close>, \<open>!help\<close>\<close>
  "match_callout tag s =
     (case s of
        [] \<Rightarrow> None
      | c # r \<Rightarrow>
          if c \<noteq> CHR ''>'' then None
          else
            (let ws = takeWhile js_whitespace r;
                 r1 = drop (length ws) r
             in if \<not> prefix tag r1 then None
                else
                  (let r2 = drop (length tag) r1;
                       line = takeWhile (\<lambda>x. x \<noteq> newline) r2
                   in case drop (length line) r2 of
                        [] \<Rightarrow> None
                      | _ # r3 \<Rightarrow>
                          Some (1 + length ws + length tag + length line + 1
                                + quote_lines_len r3))))"

definition match_newlines_before_tag :: matcher where
  \<comment> \<open>\<open>/\n\n\n+(\[[\+\!])/\<close>\<close>
  "match_newlines_before_tag s =
     (let k = length (takeWhile (\<lambda>x. x = newline) s); r = drop k s
      in if 3 \<le> k \<and> (prefix ''[+'' r \<or> prefix ''[!'' r) then Some (k + 2) else None)"

definition match_newlines_after_bracket :: matcher where
  \<comment> \<open>\<open>/(\])\n\n\n+/\<close>\<close>
  "match_newlines_after_bracket s =
     (case s of
        [] \<Rightarrow> None
      | c # r \<Rightarrow>
          if c = CHR '']'' then
            (let k = length (takeWhile (\<lambda>x. x = newline) r)
             in if 3 \<le> k then Some (1 + k) else None)
          else None)"

definition match_whitespace_run :: matcher where
  \<comment> \<open>\<open>/\s+/\<close>\<close>
  "match_whitespace_run s =
     (let k = length (takeWhile js_whitespace s) in if 1 \<le> k then Some k else None)"

definition match_blank_quote :: matcher where
  \<comment> \<open>\<open>>\s*\n\<close> in front of a \<open>>\<close>: the whole run of white space behind the \<open>>\<close>,
      which has to end with a newline\<close>
  "match_blank_quote s =
     (case s of
        [] \<Rightarrow> None
      | c # r \<Rightarrow>
          if c = CHR ''>'' then
            (let ws = takeWhile js_whitespace r
             in if ws \<noteq> [] \<and> last ws = newline \<and> prefix ''>'' (drop (length ws) r)
                then Some (1 + length ws) else None)
          else None)"

definition match_two_blank_quotes :: "string \<Rightarrow> matcher" where
  \<comment> \<open>\<open>/^>\s*\n>\s*\n(>-)/\<close> and \<open>/^>\s*\n>\s*\n(>\[)/\<close>; \<open>item\<close> is the group\<close>
  "match_two_blank_quotes item s =
     (case match_blank_quote s of
        None \<Rightarrow> None
      | Some a \<Rightarrow>
          (case match_blank_quote (drop a s) of
             None \<Rightarrow> None
           | Some b \<Rightarrow>
               if prefix item (drop (a + b) s) then Some (a + b + length item) else None))"

function blank_quotes_len :: "string \<Rightarrow> nat" where
  \<comment> \<open>\<open>(>\s*\n)*\<close>, greedy\<close>
  "blank_quotes_len s =
     (case match_blank_quote s of
        None \<Rightarrow> 0
      | Some a \<Rightarrow> if a = 0 then 0 else a + blank_quotes_len (drop a s))"
  by pat_completeness auto
termination
proof (relation "measure length", goal_cases)
  case 1
  show ?case by simp
next
  case (2 s a)
  then have "s \<noteq> []" by (auto simp: match_blank_quote_def)
  with 2 show ?case by simp
qed

definition match_blank_quotes_before_item :: matcher where
  \<comment> \<open>\<open>/^(>\s*\n)+(?=>[-\[])/\<close>\<close>
  "match_blank_quotes_before_item s =
     (let n = blank_quotes_len s; r = drop n s
      in if 0 < n \<and> (prefix ''>-'' r \<or> prefix ''>['' r) then Some n else None)"

section \<open>The output normalizer (\<open>services/outputNormalizer.ts\<close>)\<close>

definition fixGuidedHintSpacing :: "string \<Rightarrow> string" where
  "fixGuidedHintSpacing content =
     replace_g (match_block guided_marker)
       (\<lambda>match. replace_g (match_blanks_before_item 2) (\<lambda>m. ''>\<newline>'' @ last2 m) match)
       content"

definition fixDoubleGreaterThan :: "string \<Rightarrow> string" where
  "fixDoubleGreaterThan content = replace_g (match_lit ''> >-'') (\<lambda>m. ''> -'') content"

definition extract_callouts :: "string \<Rightarrow> string \<Rightarrow> string list \<Rightarrow> string \<times> string list" where
  \<comment> \<open>one \<open>cleanedGuidedBlock.replace(tagBlockRegex, ...)\<close>: every match is pushed, trimmed,
      onto \<open>extractedBlocks\<close> and removed from the block\<close>
  "extract_callouts tag block extractedBlocks =
     replace_g_st (match_callout tag) (\<lambda>m ex. ([], ex @ [trim m])) block extractedBlocks"

definition clean_guided_block :: "string \<Rightarrow> string list \<Rightarrow> string \<times> string list" where
  \<comment> \<open>the callback of step 1 of \<open>extractAndRelocateAlertBlocks\<close>\<close>
  "clean_guided_block guidedMatch extractedBlocks =
     (case extract_callouts ''[+alert]'' guidedMatch extractedBlocks of
        (b1, e1) \<Rightarrow>
          (case extract_callouts ''[!note]'' b1 e1 of
             (b2, e2) \<Rightarrow>
               (case extract_callouts ''[!help]'' b2 e2 of
                  (b3, e3) \<Rightarrow>
                    (replace_g (match_lit ''>\<newline>>\<newline>>\<newline>'')
                       (\<lambda>m. ''>\<newline>>\<newline>'') b3, e3))))"

definition extractAndRelocateAlertBlocks :: "string \<Rightarrow> string" where
  "extractAndRelocateAlertBlocks content =
     (case replace_g_st (match_block guided_marker) clean_guided_block content [] of
        (modifiedContent, extractedBlocks) \<Rightarrow>
          if 0 < length extractedBlocks then
            replace_g (match_block advanced_marker)
              (\<lambda>advancedMatch.
                 advancedMatch @ ''\<newline>\<newline>'' @ join ''\<newline>>\<newline>'' extractedBlocks)
              modifiedContent
          else modifiedContent)"

definition normalizeAlertBlocks :: "string \<Rightarrow> string" where
  "normalizeAlertBlocks content =
     replace_g match_newlines_after_bracket (\<lambda>m. '']\<newline>\<newline>'')
       (replace_g match_newlines_before_tag (\<lambda>m. ''\<newline>\<newline>'' @ last2 m) content)"

definition normalize :: "string \<Rightarrow> string \<Rightarrow> string" where
  \<comment> \<open>the argument \<open>provider\<close> is not used by the body\<close>
  "normalize content provider =
     (let normalized = replace_g (match_lit [carriage_return, newline]) (\<lambda>m. [newline]) content;
          normalized = join [newline] (map trimEnd (split_lines normalized));
          normalized = fixDoubleGreaterThan normalized;
          normalized = fixGuidedHintSpacing normalized;
          normalized = extractAndRelocateAlertBlocks normalized;
          normalized = normalizeAlertBlocks normalized
      in normalized)"

definition normalizeOpenAI :: "string \<Rightarrow> string" where
  "normalizeOpenAI content = normalize content ''openai''"

definition fixOverviewFormatting :: "string \<Rightarrow> string" where
  \<comment> \<open>\<open>/>\[overview\]:([\s\S]*?)(?=\n\n|$)/\<close> has no flag \<open>g\<close>: the first match only\<close>
  "fixOverviewFormatting content =
     (case find_sub ''>[overview]:'' content of
        None \<Rightarrow> content
      | Some i \<Rightarrow>
          (let rest = drop (i + 12) content;
               j = (case find_sub ''\<newline>\<newline>'' rest of None \<Rightarrow> length rest | Some k \<Rightarrow> k);
               overviewContent = take j rest;
               singleLine =
                 trim (replace_g match_whitespace_run (\<lambda>m. '' '')
                         (replace_g (match_lit ''\<newline>>'') (\<lambda>m. '' '') overviewContent))
           in take i content @ ''>[overview]: '' @ singleLine @ drop j rest))"

definition fixGeminiGuidedHintSpacing :: "string \<Rightarrow> string" where
  "fixGeminiGuidedHintSpacing content =
     replace_g (match_block guided_marker)
       (\<lambda>match.
          (let fixed = replace_g (match_blanks_before_item 3) (\<lambda>m. ''>\<newline>'' @ last2 m) match;
               fixed = replace_g (match_blanks_before_item 1)
                         (\<lambda>m. ''>\<newline>>\<newline>'' @ last2 m) fixed
           in fixed))
       content"

definition bullets_pass :: "string \<Rightarrow> string" where
  \<comment> \<open>the body of the loop \<open>for (let i = 0; i < 3; i++)\<close>\<close>
  "bullets_pass fixed =
     (let fixed = replace_gm (match_two_blank_quotes ''>-'') (\<lambda>m. ''>\<newline>'' @ last2 m) True fixed;
          fixed = replace_gm (match_two_blank_quotes ''>['') (\<lambda>m. ''>\<newline>'' @ last2 m) True fixed;
          fixed = replace_gm match_blank_quotes_before_item (\<lambda>m. ''>\<newline>'') True fixed
      in fixed)"

definition fixDoubleBlankLinesBeforeBullets :: "string \<Rightarrow> string" where
  "fixDoubleBlankLinesBeforeBullets content =
     (let fixed = replace_g (match_lit [carriage_return, newline]) (\<lambda>m. [newline]) content
      in bullets_pass (bullets_pass (bullets_pass fixed)))"

definition normalizeGemini :: "string \<Rightarrow> string" where
  "normalizeGemini content =
     (let normalized = normalize content ''gemini'';
          normalized = fixOverviewFormatting normalized;
          normalized = fixGeminiGuidedHintSpacing normalized;
          normalized = fixDoubleBlankLinesBeforeBullets normalized
      in normalized)"

definition normalizeOllama :: "string \<Rightarrow> string" where
  "normalizeOllama content = normalize content ''ollama''"

section \<open>Values, errors and the events an operation produces\<close>

text \<open>
  A value as \<open>JSON.parse\<close> returns it, with \<open>undefined\<close> added for the result of
  reading a property that is not there. Numbers are the integers: the code compares
  them with 400, 429 and 503 and tests them for being 0 only.
\<close>

datatype js_value =
    Undefined
  | Null
  | Bool bool
  | Num int
  | Str string
  | Arr "js_value list"
  | Obj "(string \<times> js_value) list"

fun truthy :: "js_value \<Rightarrow> bool" where
  "truthy Undefined = False"
| "truthy Null = False"
| "truthy (Bool b) = b"
| "truthy (Num n) = (n \<noteq> 0)"
| "truthy (Str s) = (s \<noteq> [])"
| "truthy (Arr xs) = True"
| "truthy (Obj kvs) = True"

definition js_or :: "js_value \<Rightarrow> js_value \<Rightarrow> js_value" where
  \<comment> \<open>\<open>a || b\<close>\<close>
  "js_or a b = (if truthy a then a else b)"

fun opt_prop :: "js_value \<Rightarrow> string \<Rightarrow> js_value" where
  \<comment> \<open>\<open>v?.k\<close>, and \<open>v.k\<close> for a \<open>v\<close> that is neither \<open>null\<close> nor \<open>undefined\<close>; the
      keys read by the code are no properties of a number, string, boolean or array\<close>
  "opt_prop (Obj kvs) k = (case map_of kvs k of None \<Rightarrow> Undefined | Some v \<Rightarrow> v)"
| "opt_prop v k = Undefined"

text \<open>
  A thrown value: an \<open>Error\<close> object with its name and message, the property
  \<open>status\<close> that the errors of the OpenAI client carry, and what \<open>JSON.stringify\<close>
  makes of the object.
\<close>

record js_error =
  err_name :: string
  err_message :: string
  err_status :: "int option"
  err_json :: string

definition new_Error :: "string \<Rightarrow> js_error" where
  "new_Error msg = \<lparr>err_name = ''Error'', err_message = msg, err_status = None, err_json = ''{}''\<rparr>"

definition new_TypeError :: "string \<Rightarrow> js_error" where
  \<comment> \<open>the error the engine raises when a method is called on a value that lacks it\<close>
  "new_TypeError msg =
     \<lparr>err_name = ''TypeError'', err_message = msg, err_status = None, err_json = ''{}''\<rparr>"

definition error_toString :: "js_error \<Rightarrow> string" where
  \<comment> \<open>\<open>`${error}`\<close>, that is \<open>Error.prototype.toString\<close>\<close>
  "error_toString e =
     (if err_name e = [] then err_message e
      else if err_message e = [] then err_name e
      else err_name e @ '': '' @ err_message e)"

definition cancel_message :: string where
  "cancel_message = ''Operation stopped by user.''"

definition maxRetries :: nat where
  "maxRetries = 6"

function show_nat :: "nat \<Rightarrow> string" where
  \<comment> \<open>a number inside a template literal\<close>
  "show_nat n =
     (if n < 10 then [char_of (48 + n)] else show_nat (n div 10) @ [char_of (48 + n mod 10)])"
  by pat_completeness auto
termination
  by (relation "measure id") auto

datatype ContentPart = TextPart string | ImagePart string string

datatype gemini_part = GeminiText string | GeminiInlineData string string

datatype gemini_contents = ContentsString string | ContentsParts "gemini_part list"

datatype openai_part = OpenAIText string | OpenAIImageUrl string

datatype openai_content = ContentString string | ContentParts "openai_part list"

datatype openai_message = ChatMessage (msg_role: string) (msg_content: openai_content)

datatype ollama_message =
  OllamaMessage (ollama_role: string) (ollama_content: string) (ollama_images: "string list option")

text \<open>
  The calls that leave the adapter: \<open>ai.models.generateContentStream\<close> of a client built
  with an API key, \<open>client.chat.completions.create\<close> of a client built with an API key,
  and \<open>fetch\<close> of a URL with a JSON body.
\<close>

datatype request =
    GeminiGenerateContentStream (g_apiKey: string) (g_model: string) (g_contents: gemini_contents)
  | OpenAIChatCompletionsCreate (o_apiKey: string) (o_model: string)
      (o_messages: "openai_message list") (o_stream: bool)
  | OllamaFetch (f_url: string) (f_model: string) (f_messages: "ollama_message list") (f_stream: bool)

text \<open>
  What an operation does that its caller or the outside can see, in order:
  a read of \<open>isCancelledRef.current\<close> with the value read, a transport call, a call of
  \<open>onChunk\<close>, a call of \<open>onStatusUpdate\<close>, an \<open>await wait(ms)\<close>, a \<open>reader.cancel()\<close>.
  Output on the console is left out.
\<close>

datatype event =
    TokenRead bool
  | Request request
  | OnChunk string
  | StatusUpdate string
  | Wait nat
  | ReaderCancel

datatype try_result = Returned string | Threw js_error bool
  \<comment> \<open>\<open>Threw e tok\<close>: the block threw \<open>e\<close>, and \<open>isCancelledRef.current\<close> is \<open>tok\<close> when the
      \<open>catch\<close> block starts\<close>

datatype catch_result = Rethrow js_error | Retry nat
  \<comment> \<open>\<open>Retry delayTime\<close>: the block ends with \<open>await wait(delayTime)\<close>\<close>

text \<open>
  The loop that every operation is written around:
  \<^verbatim>\<open>for (let attempt = 0; attempt <= maxRetries; attempt++) { try {...} catch (error) {...} }
  throw new Error(`... Last error: ${lastError}`);\<close>
  The token is a cell that the caller may write while the operation is suspended in an
  \<open>await\<close>: \<open>tok\<close> is its value when the attempt starts, \<open>wait_tok attempt\<close> its value
  when the wait of that attempt is over.
\<close>

function retry_loop ::
  "(nat \<Rightarrow> bool \<Rightarrow> event list \<times> try_result) \<Rightarrow>
   (nat \<Rightarrow> js_error \<Rightarrow> bool \<Rightarrow> event list \<times> catch_result) \<Rightarrow>
   (js_error option \<Rightarrow> js_error) \<Rightarrow> (nat \<Rightarrow> bool) \<Rightarrow>
   nat \<Rightarrow> bool \<Rightarrow> js_error option \<Rightarrow> event list \<times> (js_error + string)" where
  "retry_loop try_block catch_block after_loop wait_tok attempt tok lastError =
     (if attempt \<le> maxRetries then
        (case try_block attempt tok of
           (evs, Returned text) \<Rightarrow> (evs, Inr text)
         | (evs, Threw error tok') \<Rightarrow>
             (case catch_block attempt error tok' of
                (cevs, Rethrow e) \<Rightarrow> (evs @ cevs, Inl e)
              | (cevs, Retry delayTime) \<Rightarrow>
                  (case retry_loop try_block catch_block after_loop wait_tok
                          (attempt + 1) (wait_tok attempt) (Some error) of
                     (revs, r) \<Rightarrow> (evs @ cevs @ [Wait delayTime] @ revs, r))))
      else ([], Inl (after_loop lastError)))"
  by pat_completeness auto
termination
  by (relation "measure (\<lambda>(t, c, a, w, attempt, tok, l). Suc maxRetries - attempt)") auto

text \<open>What the outside does during one operation.\<close>

record 'a environment =
  cancelled_at_start :: bool
  transport :: "nat \<Rightarrow> 'a"
  random :: "nat \<Rightarrow> real"
  cancelled_after_wait :: "nat \<Rightarrow> bool"

text \<open>
  \<open>transport env attempt\<close> is what the transport does in that attempt,
  \<open>random env attempt\<close> what \<open>Math.random()\<close> returns in its \<open>catch\<close> block.
\<close>

datatype 'r call_outcome = Rejects js_error bool | Resolves 'r
  \<comment> \<open>the awaited call rejects (with the value of the token at that moment) or resolves\<close>

datatype 'c stream = StreamDone | StreamThrows js_error bool | StreamChunk 'c bool "'c stream"
  \<comment> \<open>an async iterable: it ends, throws, or yields a chunk; the boolean is the value of
      the token when the adapter runs again\<close>

definition base_delay :: "nat \<Rightarrow> nat" where
  \<comment> \<open>\<open>2000 * Math.pow(2, attempt)\<close>\<close>
  "base_delay attempt = 2000 * 2 ^ attempt"

definition inflated_delay :: "real \<Rightarrow> nat \<Rightarrow> nat" where
  \<comment> \<open>\<open>15000 * Math.pow(2, attempt) + Math.floor(Math.random() * 5000)\<close>\<close>
  "inflated_delay rnd attempt = 15000 * 2 ^ attempt + nat \<lfloor>rnd * 5000\<rfloor>"

definition retry_status :: "string \<Rightarrow> nat \<Rightarrow> nat \<Rightarrow> string" where
  \<comment> \<open>\<open>`<lead>${Math.round(delayTime/1000)}s... (Attempt ${attempt + 2}/${maxRetries + 1})`\<close>\<close>
  "retry_status lead delayTime attempt =
     lead @ show_nat ((delayTime + 500) div 1000) @ ''s... (Attempt '' @ show_nat (attempt + 2)
       @ ''/'' @ show_nat (maxRetries + 1) @ '')''"

definition last_error_text :: "(js_error \<Rightarrow> string) \<Rightarrow> js_error option \<Rightarrow> string" where
  \<comment> \<open>\<open>lastError\<close> inside the template literal of the \<open>throw\<close> behind the loop\<close>
  "last_error_text render lastError =
     (case lastError of None \<Rightarrow> ''undefined'' | Some e \<Rightarrow> render e)"

definition prompt_with_content :: "string \<Rightarrow> string \<Rightarrow> string" where
  \<comment> \<open>\<open>`${agentPrompt}\n\n---\n\n${content}`\<close>\<close>
  "prompt_with_content agentPrompt content =
     agentPrompt @ ''\<newline>\<newline>---\<newline>\<newline>'' @ content"

text \<open>
  \<open>for await (const chunk of stream)\<close> with the body that the streaming operations of
  the Gemini and the OpenAI adapter share: the token is read, the text of the chunk is
  appended to \<open>fullText\<close> and, where the operation has an \<open>onChunk\<close>, handed to it.
\<close>

fun for_await ::
  "('c \<Rightarrow> string) \<Rightarrow> bool \<Rightarrow> 'c stream \<Rightarrow> string \<Rightarrow> event list \<times> (js_error \<times> bool + string)" where
  "for_await text_of emit StreamDone fullText = ([], Inr fullText)"
| "for_await text_of emit (StreamThrows e tok) fullText = ([], Inl (e, tok))"
| "for_await text_of emit (StreamChunk chunk tok rest) fullText =
     (if tok then ([TokenRead True], Inl (new_Error cancel_message, True))
      else
        (let chunkText = text_of chunk in
         if chunkText \<noteq> [] then
           (case for_await text_of emit rest (fullText @ chunkText) of
              (evs, r) \<Rightarrow> (TokenRead False # (if emit then [OnChunk chunkText] else []) @ evs, r))
         else
           (case for_await text_of emit rest fullText of
              (evs, r) \<Rightarrow> (TokenRead False # evs, r))))"

definition stream_try ::
  "request \<Rightarrow> ('c \<Rightarrow> string) \<Rightarrow> bool \<Rightarrow> (string \<Rightarrow> string) \<Rightarrow> (nat \<Rightarrow> 'c stream call_outcome) \<Rightarrow>
   nat \<Rightarrow> bool \<Rightarrow> event list \<times> try_result" where
  \<comment> \<open>the \<open>try\<close> block of an operation that awaits a stream and iterates over it\<close>
  "stream_try req text_of emit normalizer call attempt tok =
     (if tok then ([TokenRead True], Threw (new_Error cancel_message) True)
      else
        (case call attempt of
           Rejects e tok' \<Rightarrow> ([TokenRead False, Request req], Threw e tok')
         | Resolves stream \<Rightarrow>
             (case for_await text_of emit stream [] of
                (evs, Inl (e, tok')) \<Rightarrow> ([TokenRead False, Request req] @ evs, Threw e tok')
              | (evs, Inr fullText) \<Rightarrow>
                  ([TokenRead False, Request req] @ evs @ [StatusUpdate []],
                   Returned (normalizer fullText)))))"

section \<open>The service types and the factory (\<open>aiServiceTypes.ts\<close>, \<open>aiServiceFactory.ts\<close>)\<close>

datatype AIProvider = Gemini | OpenAI | Ollama

record AIConfig =
  provider :: AIProvider
  apiKey :: string
  model :: string
  ollamaBaseUrl :: "string option"

record GeminiService =
  gemini_ai :: string
  gemini_model :: string

record OpenAIService =
  openai_client :: string
  openai_model :: string

record OllamaService =
  baseUrl :: string
  ollama_model :: string

text \<open>
  The constructors: the clients of the two cloud adapters are built from the API key of
  the configuration (the field holds the key the client was built with), the Ollama
  adapter keeps \<open>config.ollamaBaseUrl || 'http://localhost:11434'\<close>.
\<close>

definition new_GeminiService :: "AIConfig \<Rightarrow> GeminiService" where
  "new_GeminiService config = \<lparr>gemini_ai = apiKey config, gemini_model = model config\<rparr>"

definition new_OpenAIService :: "AIConfig \<Rightarrow> OpenAIService" where
  "new_OpenAIService config = \<lparr>openai_client = apiKey config, openai_model = model config\<rparr>"

definition new_OllamaService :: "AIConfig \<Rightarrow> OllamaService" where
  "new_OllamaService config =
     \<lparr>baseUrl = (case ollamaBaseUrl config of
                   None \<Rightarrow> ''http://localhost:11434''
                 | Some url \<Rightarrow> if url = [] then ''http://localhost:11434'' else url),
      ollama_model = model config\<rparr>"

datatype IAIService =
    GeminiAdapter GeminiService
  | OpenAIAdapter OpenAIService
  | OllamaAdapter OllamaService

definition createAIService :: "AIConfig \<Rightarrow> IAIService" where
  "createAIService config =
     (case provider config of
        Gemini \<Rightarrow> GeminiAdapter (new_GeminiService config)
      | OpenAI \<Rightarrow> OpenAIAdapter (new_OpenAIService config)
      | Ollama \<Rightarrow> OllamaAdapter (new_OllamaService config))"

section \<open>The OpenAI adapter (\<open>services/openaiProvider.ts\<close>)\<close>

definition convertToOpenAIContent :: "ContentPart list \<Rightarrow> openai_part list" where
  "convertToOpenAIContent parts =
     map (\<lambda>part. case part of
            TextPart text \<Rightarrow> OpenAIText text
          | ImagePart data mimeType \<Rightarrow> OpenAIImageUrl (''data:'' @ mimeType @ '';base64,'' @ data))
       parts"

text \<open>
  A response or a chunk of the OpenAI client is the list of its choices; a choice is
  \<open>None\<close> when it has no \<open>message\<close> (in a chunk: no \<open>delta\<close>), \<open>Some None\<close> when the
  \<open>content\<close> of that is missing or \<open>null\<close>, \<open>Some (Some s)\<close> when it is the string \<open>s\<close>.
\<close>

type_synonym openai_choices = "string option option list"

definition first_content :: "openai_choices \<Rightarrow> string" where
  \<comment> \<open>\<open>response.choices[0]?.message?.content || ''\<close>, \<open>chunk.choices[0]?.delta?.content || ''\<close>\<close>
  "first_content choices =
     (case choices of
        [] \<Rightarrow> []
      | c # _ \<Rightarrow> (case c of None \<Rightarrow> [] | Some None \<Rightarrow> [] | Some (Some s) \<Rightarrow> s))"

definition openai_is_api_key_error :: "js_error \<Rightarrow> bool" where
  \<comment> \<open>\<open>error?.status === 401 || error?.message?.toLowerCase().includes('api key')\<close>\<close>
  "openai_is_api_key_error error =
     (err_status error = Some 401 \<or> js_includes (toLowerCase (err_message error)) ''api key'')"

definition openai_api_key_message :: string where
  "openai_api_key_message =
     ''Your OpenAI API key is invalid or has expired. Please check your API key settings.''"

definition openai_quota_message :: string where
  "openai_quota_message =
     ''You have exceeded your OpenAI API quota. Please check your plan and billing details.''"

definition message_or_unknown :: "js_error \<Rightarrow> string" where
  \<comment> \<open>\<open>error?.message || 'Unknown error'\<close>\<close>
  "message_or_unknown error = (if err_message error \<noteq> [] then err_message error else ''Unknown error'')"

definition openai_delayTime :: "real \<Rightarrow> nat \<Rightarrow> js_error \<Rightarrow> nat" where
  \<comment> \<open>\<open>delayTime\<close> of the \<open>catch\<close> block; the random number is drawn for status 429 only\<close>
  "openai_delayTime rnd attempt error =
     (if err_status error = Some 429 then inflated_delay rnd attempt else base_delay attempt)"

definition openai_final_error :: "string \<Rightarrow> js_error \<Rightarrow> js_error" where
  \<comment> \<open>what the \<open>catch\<close> block throws when the last attempt has failed\<close>
  "openai_final_error what error =
     (if err_status error = Some 429 then new_Error openai_quota_message
      else new_Error (''Failed to process '' @ what @ '' with OpenAI API: ''
                      @ message_or_unknown error))"

definition openai_catch :: "string \<Rightarrow> real \<Rightarrow> nat \<Rightarrow> js_error \<Rightarrow> bool \<Rightarrow> event list \<times> catch_result" where
  \<comment> \<open>the \<open>catch\<close> block of the three operations; \<open>what\<close> is \<open>text\<close>, \<open>text stream\<close> or
      \<open>multi-modal stream\<close>\<close>
  "openai_catch what rnd attempt error tok =
     (if tok then ([TokenRead True], Rethrow (new_Error cancel_message))
      else if openai_is_api_key_error error then
        ([TokenRead False], Rethrow (new_Error openai_api_key_message))
      else if attempt < maxRetries then
        (let delayTime = openai_delayTime rnd attempt error
         in ([TokenRead False,
              StatusUpdate (retry_status ''The AI model is busy. Retrying in '' delayTime attempt)],
             Retry delayTime))
      else ([TokenRead False], Rethrow (openai_final_error what error)))"

definition openai_after_loop :: "string \<Rightarrow> js_error option \<Rightarrow> js_error" where
  "openai_after_loop what lastError =
     new_Error (''Failed to process '' @ what @ '' with OpenAI API after '' @ show_nat maxRetries
                @ '' attempts. Last error: '' @ last_error_text error_toString lastError)"

definition openai_text_request :: "OpenAIService \<Rightarrow> string \<Rightarrow> string \<Rightarrow> bool \<Rightarrow> request" where
  \<comment> \<open>the argument of \<open>create\<close> in \<open>processText\<close> and \<open>processTextStream\<close>\<close>
  "openai_text_request svc agentPrompt content stream =
     OpenAIChatCompletionsCreate (openai_client svc) (openai_model svc)
       [ChatMessage ''user'' (ContentString (prompt_with_content agentPrompt content))] stream"

definition openai_processText_try ::
  "OpenAIService \<Rightarrow> string \<Rightarrow> string \<Rightarrow> (nat \<Rightarrow> openai_choices call_outcome) \<Rightarrow>
   nat \<Rightarrow> bool \<Rightarrow> event list \<times> try_result" where
  "openai_processText_try svc agentPrompt content call attempt tok =
     (if tok then ([TokenRead True], Threw (new_Error cancel_message) True)
      else
        (case call attempt of
           Rejects e tok' \<Rightarrow>
             ([TokenRead False, Request (openai_text_request svc agentPrompt content False)],
              Threw e tok')
         | Resolves response \<Rightarrow>
             ([TokenRead False, Request (openai_text_request svc agentPrompt content False),
               StatusUpdate []],
              Returned (normalizeOpenAI (first_content response)))))"

definition OpenAIService_processText ::
  "OpenAIService \<Rightarrow> string \<Rightarrow> string \<Rightarrow> openai_choices call_outcome environment \<Rightarrow>
   event list \<times> (js_error + string)" where
  "OpenAIService_processText svc agentPrompt content env =
     retry_loop (openai_processText_try svc agentPrompt content (transport env))
       (\<lambda>attempt. openai_catch ''text'' (random env attempt) attempt)
       (openai_after_loop ''text'') (cancelled_after_wait env)
       0 (cancelled_at_start env) None"

definition OpenAIService_processTextStream ::
  "OpenAIService \<Rightarrow> string \<Rightarrow> string \<Rightarrow> openai_choices stream call_outcome environment \<Rightarrow>
   event list \<times> (js_error + string)" where
  "OpenAIService_processTextStream svc agentPrompt content env =
     retry_loop
       (stream_try (openai_text_request svc agentPrompt content True) first_content True
          normalizeOpenAI (transport env))
       (\<lambda>attempt. openai_catch ''text stream'' (random env attempt) attempt)
       (openai_after_loop ''text stream'') (cancelled_after_wait env)
       0 (cancelled_at_start env) None"

definition openai_parts_request :: "OpenAIService \<Rightarrow> string \<Rightarrow> ContentPart list \<Rightarrow> request" where
  "openai_parts_request svc agentPrompt parts =
     OpenAIChatCompletionsCreate (openai_client svc) (openai_model svc)
       [ChatMessage ''user'' (ContentParts (OpenAIText agentPrompt # convertToOpenAIContent parts))]
       True"

definition OpenAIService_generateScriptStream ::
  "OpenAIService \<Rightarrow> string \<Rightarrow> ContentPart list \<Rightarrow> openai_choices stream call_outcome environment \<Rightarrow>
   event list \<times> (js_error + string)" where
  "OpenAIService_generateScriptStream svc agentPrompt parts env =
     retry_loop
       (stream_try (openai_parts_request svc agentPrompt parts) first_content True
          normalizeOpenAI (transport env))
       (\<lambda>attempt. openai_catch ''multi-modal stream'' (random env attempt) attempt)
       (openai_after_loop ''multi-modal stream'') (cancelled_after_wait env)
       0 (cancelled_at_start env) None"

section \<open>The Gemini adapter (\<open>services/geminiProvider.ts\<close>)\<close>

text \<open>
  \<open>JSON.parse\<close> is a function of the engine, not of the repository: the definitions
  take it as the argument \<open>json_parse\<close>, which returns \<open>None\<close> where \<open>JSON.parse\<close>
  throws. The thrown value is taken to be an \<open>Error\<close> object, so that \<open>errorMessage\<close>
  is its message.
\<close>

record parsed_error =
  code :: js_value
  message :: js_value
  status :: js_value

definition parse_fallback :: "string \<Rightarrow> parsed_error" where
  \<comment> \<open>the \<open>catch\<close> block of \<open>parseGeminiError\<close>\<close>
  "parse_fallback errorMessage =
     (if js_includes errorMessage ''429'' \<or> js_includes errorMessage ''RESOURCE_EXHAUSTED'' then
        \<lparr>code = Num 429, message = Str ''You have exceeded your API quota.'',
         status = Str ''RESOURCE_EXHAUSTED''\<rparr>
      else if js_includes errorMessage ''503'' \<or> js_includes errorMessage ''UNAVAILABLE''
              \<or> js_includes errorMessage ''overloaded'' then
        \<lparr>code = Num 503, message = Str ''The AI model is currently overloaded.'',
         status = Str ''UNAVAILABLE''\<rparr>
      else \<lparr>code = Num 0, message = Str errorMessage, status = Str ''UNKNOWN''\<rparr>)"

definition parseGeminiError :: "(string \<Rightarrow> js_value option) \<Rightarrow> js_error \<Rightarrow> parsed_error" where
  "parseGeminiError json_parse error =
     (let errorMessage = err_message error in
      case json_parse errorMessage of
        None \<Rightarrow> parse_fallback errorMessage
      | Some parsed \<Rightarrow>
          if parsed = Null then parse_fallback errorMessage
          else
            (let errorObj =
                   (if truthy (opt_prop parsed ''error'') then
                      (case opt_prop (opt_prop parsed ''error'') ''message'' of
                         Str inner \<Rightarrow>
                           (case json_parse inner of
                              None \<Rightarrow> parsed
                            | Some nestedErrorObj \<Rightarrow>
                                if nestedErrorObj \<noteq> Null \<and> truthy (opt_prop nestedErrorObj ''error'')
                                then nestedErrorObj else parsed)
                       | _ \<Rightarrow> parsed)
                    else parsed);
                 err = opt_prop errorObj ''error''
             in \<lparr>code = js_or (opt_prop err ''code'') (Num 0),
                 message = js_or (opt_prop err ''message'') (Str errorMessage),
                 status = js_or (opt_prop err ''status'') (Str [])\<rparr>))"

text \<open>
  In \<open>parseGeminiError\<close>, \<open>JSON.parse\<close> returning \<open>null\<close> makes the read of
  \<open>errorObj.error\<close> throw, which the outer \<open>catch\<close> turns into the fallback; a nested
  \<open>null\<close> makes the read of \<open>nestedErrorObj.error\<close> throw, which the inner \<open>catch\<close>
  swallows.
\<close>

definition convertToGeminiPart :: "ContentPart \<Rightarrow> gemini_part" where
  "convertToGeminiPart part =
     (case part of
        TextPart text \<Rightarrow> GeminiText text
      | ImagePart data mimeType \<Rightarrow> GeminiInlineData data mimeType)"

fun method_includes :: "js_value \<Rightarrow> string \<Rightarrow> bool option" where
  \<comment> \<open>\<open>v.includes(x)\<close> for a string \<open>x\<close>: the method of a string or of an array; any
      other value has none, and the call throws a \<open>TypeError\<close> (\<open>None\<close>)\<close>
  "method_includes (Str s) x = Some (js_includes s x)"
| "method_includes (Arr xs) x = Some (Str x \<in> set xs)"
| "method_includes v x = None"

definition gemini_is_cancellation :: "parsed_error \<Rightarrow> bool option" where
  \<comment> \<open>\<open>parsedError.message.includes("Operation stopped by user.")\<close>\<close>
  "gemini_is_cancellation parsedError = method_includes (message parsedError) cancel_message"

definition gemini_is_api_key_error :: "parsed_error \<Rightarrow> bool option" where
  \<comment> \<open>\<open>parsedError.code === 400 && (parsedError.status === 'INVALID_ARGUMENT' ||
      parsedError.message.toLowerCase().includes('api key'))\<close>; \<open>None\<close> where \<open>toLowerCase\<close>
      is called on a value that is no string\<close>
  "gemini_is_api_key_error parsedError =
     (if code parsedError = Num 400 then
        (if status parsedError = Str ''INVALID_ARGUMENT'' then Some True
         else (case message parsedError of
                 Str s \<Rightarrow> Some (js_includes (toLowerCase s) ''api key'')
               | _ \<Rightarrow> None))
      else Some False)"

definition gemini_api_key_message :: string where
  "gemini_api_key_message =
     ''Your API key is invalid or has expired. Please check your API key settings.''"

definition gemini_quota_message :: string where
  "gemini_quota_message =
     ''You have exceeded your API quota. Please check your plan and billing details.''"

definition gemini_overloaded_message :: string where
  "gemini_overloaded_message =
     ''The AI model is currently overloaded. Please wait a few moments and try again.''"

definition gemini_failed_message :: "string \<Rightarrow> string" where
  "gemini_failed_message what =
     ''Failed to process '' @ what
     @ '' with Gemini API after multiple attempts. The service may be busy or unavailable.''"

definition gemini_is_rate_limited :: "parsed_error \<Rightarrow> bool" where
  \<comment> \<open>\<open>parsedError.code === 429 || parsedError.code === 503\<close>\<close>
  "gemini_is_rate_limited parsedError = (code parsedError = Num 429 \<or> code parsedError = Num 503)"

definition gemini_delayTime :: "real \<Rightarrow> nat \<Rightarrow> parsed_error \<Rightarrow> nat" where
  \<comment> \<open>\<open>delayTime\<close> of the \<open>catch\<close> block; the random number is drawn for the codes 429
      and 503 only\<close>
  "gemini_delayTime rnd attempt parsedError =
     (if gemini_is_rate_limited parsedError then inflated_delay rnd attempt
      else base_delay attempt)"

definition gemini_final_error :: "string \<Rightarrow> parsed_error \<Rightarrow> js_error" where
  \<comment> \<open>what the \<open>catch\<close> block throws when the last attempt has failed\<close>
  "gemini_final_error what parsedError =
     (if code parsedError = Num 429 then new_Error gemini_quota_message
      else if code parsedError = Num 503 then new_Error gemini_overloaded_message
      else new_Error (gemini_failed_message what))"

definition gemini_catch ::
  "(string \<Rightarrow> js_value option) \<Rightarrow> string \<Rightarrow> real \<Rightarrow> nat \<Rightarrow> js_error \<Rightarrow> bool \<Rightarrow>
   event list \<times> catch_result" where
  \<comment> \<open>the \<open>catch\<close> block of the three operations\<close>
  "gemini_catch json_parse what rnd attempt error tok =
     (let parsedError = parseGeminiError json_parse error in
      case gemini_is_cancellation parsedError of
        None \<Rightarrow> ([], Rethrow (new_TypeError ''parsedError.message.includes is not a function''))
      | Some True \<Rightarrow> ([], Rethrow (new_Error cancel_message))
      | Some False \<Rightarrow>
          if tok then ([TokenRead True], Rethrow (new_Error cancel_message))
          else
            (case gemini_is_api_key_error parsedError of
               None \<Rightarrow>
                 ([TokenRead False],
                  Rethrow (new_TypeError ''parsedError.message.toLowerCase is not a function''))
             | Some True \<Rightarrow> ([TokenRead False], Rethrow (new_Error gemini_api_key_message))
             | Some False \<Rightarrow>
                 if attempt < maxRetries then
                   (let delayTime = gemini_delayTime rnd attempt parsedError
                    in ([TokenRead False,
                         StatusUpdate
                           (retry_status ''The AI model is very busy. Patiently retrying in ''
                              delayTime attempt)],
                        Retry delayTime))
                 else ([TokenRead False], Rethrow (gemini_final_error what parsedError))))"

definition gemini_after_loop :: "string \<Rightarrow> js_error option \<Rightarrow> js_error" where
  "gemini_after_loop what lastError =
     new_Error (''Failed to process '' @ what @ '' with Gemini API after '' @ show_nat maxRetries
                @ '' attempts. Last error: '' @ last_error_text err_json lastError)"

definition chunk_text :: "string option \<Rightarrow> string" where
  \<comment> \<open>\<open>chunk.text\<close>, which is a string or \<open>undefined\<close>; only a non-empty one is used\<close>
  "chunk_text chunk = (case chunk of None \<Rightarrow> [] | Some t \<Rightarrow> t)"

definition gemini_text_request :: "GeminiService \<Rightarrow> string \<Rightarrow> string \<Rightarrow> request" where
  "gemini_text_request svc agentPrompt content =
     GeminiGenerateContentStream (gemini_ai svc) (gemini_model svc)
       (ContentsString (prompt_with_content agentPrompt content))"

definition gemini_parts_request :: "GeminiService \<Rightarrow> string \<Rightarrow> ContentPart list \<Rightarrow> request" where
  "gemini_parts_request svc agentPrompt parts =
     GeminiGenerateContentStream (gemini_ai svc) (gemini_model svc)
       (ContentsParts (GeminiText agentPrompt # map convertToGeminiPart parts))"

definition GeminiService_processText ::
  "(string \<Rightarrow> js_value option) \<Rightarrow> GeminiService \<Rightarrow> string \<Rightarrow> string \<Rightarrow>
   string option stream call_outcome environment \<Rightarrow> event list \<times> (js_error + string)" where
  "GeminiService_processText json_parse svc agentPrompt content env =
     retry_loop
       (stream_try (gemini_text_request svc agentPrompt content) chunk_text False
          normalizeGemini (transport env))
       (\<lambda>attempt. gemini_catch json_parse ''text'' (random env attempt) attempt)
       (gemini_after_loop ''text'') (cancelled_after_wait env)
       0 (cancelled_at_start env) None"

definition GeminiService_processTextStream ::
  "(string \<Rightarrow> js_value option) \<Rightarrow> GeminiService \<Rightarrow> string \<Rightarrow> string \<Rightarrow>
   string option stream call_outcome environment \<Rightarrow> event list \<times> (js_error + string)" where
  "GeminiService_processTextStream json_parse svc agentPrompt content env =
     retry_loop
       (stream_try (gemini_text_request svc agentPrompt content) chunk_text True
          normalizeGemini (transport env))
       (\<lambda>attempt. gemini_catch json_parse ''text stream'' (random env attempt) attempt)
       (gemini_after_loop ''text stream'') (cancelled_after_wait env)
       0 (cancelled_at_start env) None"

definition GeminiService_generateScriptStream ::
  "(string \<Rightarrow> js_value option) \<Rightarrow> GeminiService \<Rightarrow> string \<Rightarrow> ContentPart list \<Rightarrow>
   string option stream call_outcome environment \<Rightarrow> event list \<times> (js_error + string)" where
  "GeminiService_generateScriptStream json_parse svc agentPrompt parts env =
     retry_loop
       (stream_try (gemini_parts_request svc agentPrompt parts) chunk_text True
          normalizeGemini (transport env))
       (\<lambda>attempt. gemini_catch json_parse ''multi-modal stream'' (random env attempt) attempt)
       (gemini_after_loop ''multi-modal stream'') (cancelled_after_wait env)
       0 (cancelled_at_start env) None"

section \<open>The Ollama adapter (\<open>services/ollamaProvider.ts\<close>)\<close>

text \<open>
  What \<open>fetch\<close> and the response do in one attempt: \<open>fetch\<close> rejects; or the response is
  not \<open>ok\<close>, with its status and with what \<open>await response.text()\<close> gives (a rejection or
  the text); or the response is \<open>ok\<close>, with a body. The boolean is the value of the token
  when the adapter runs again.
\<close>

datatype 'b http_outcome =
    FetchRejects js_error bool
  | HttpNotOk nat "js_error + string" bool
  | HttpOk 'b

definition makeRequest :: "'b http_outcome \<Rightarrow> (js_error \<times> bool) + 'b" where
  "makeRequest outcome =
     (case outcome of
        FetchRejects e tok \<Rightarrow> Inl (e, tok)
      | HttpNotOk st (Inl e) tok \<Rightarrow> Inl (e, tok)
      | HttpNotOk st (Inr errorText) tok \<Rightarrow>
          Inl (new_Error (''Ollama API error: '' @ show_nat st @ '' - '' @ errorText), tok)
      | HttpOk body \<Rightarrow> Inr body)"

text \<open>
  The body of an \<open>ok\<close> answer to the request without streaming: \<open>await response.json()\<close>
  rejects; or \<open>data.message.content\<close> cannot be read or is no string, and the engine
  raises an error behind the status update; or it is a string.
\<close>

datatype json_body =
    JsonRejects js_error bool
  | DataMalformed js_error bool
  | DataContent string

text \<open>
  The body of an \<open>ok\<close> answer to a streaming request: no reader, or a reader with the
  sequence of its reads, each giving the decoded text of a chunk.
\<close>

datatype reads = ReadDone | ReadThrows js_error bool | ReadChunk string bool reads

datatype stream_body = NoReader bool | Reader bool reads

definition show_int :: "int \<Rightarrow> string" where
  "show_int i = (if i < 0 then ''-'' @ show_nat (nat (- i)) else show_nat (nat i))"

fun js_toString :: "js_value \<Rightarrow> string" where
  \<comment> \<open>the string that \<open>fullText += chunkText\<close> appends; an object is taken to have the
      \<open>toString\<close> of \<open>Object.prototype\<close>\<close>
  "js_toString Undefined = ''undefined''"
| "js_toString Null = ''null''"
| "js_toString (Bool b) = (if b then ''true'' else ''false'')"
| "js_toString (Num n) = show_int n"
| "js_toString (Str s) = s"
| "js_toString (Arr xs) =
     join '','' (map (\<lambda>x. if x = Undefined \<or> x = Null then [] else js_toString x) xs)"
| "js_toString (Obj kvs) = ''[object Object]''"

fun ollama_lines ::
  "(string \<Rightarrow> js_value option) \<Rightarrow> string list \<Rightarrow> string \<Rightarrow> event list \<times> string" where
  \<comment> \<open>\<open>for (const line of lines) { try { ... } catch (e) { } }\<close>\<close>
  "ollama_lines json_parse [] fullText = ([], fullText)"
| "ollama_lines json_parse (line # lines) fullText =
     (case json_parse line of
        None \<Rightarrow> ollama_lines json_parse lines fullText
      | Some json \<Rightarrow>
          if json = Null then ollama_lines json_parse lines fullText
          else
            (let chunkText = js_or (opt_prop (opt_prop json ''message'') ''content'') (Str []) in
             if truthy chunkText then
               (case ollama_lines json_parse lines (fullText @ js_toString chunkText) of
                  (evs, t) \<Rightarrow> (OnChunk (js_toString chunkText) # evs, t))
             else ollama_lines json_parse lines fullText))"

fun ollama_read_loop ::
  "(string \<Rightarrow> js_value option) \<Rightarrow> bool \<Rightarrow> reads \<Rightarrow> string \<Rightarrow>
   event list \<times> (js_error \<times> bool + string)" where
  \<comment> \<open>\<open>while (true) { ... }\<close> around \<open>await reader.read()\<close>\<close>
  "ollama_read_loop json_parse tok ReadDone fullText =
     (if tok then ([TokenRead True, ReaderCancel], Inl (new_Error cancel_message, True))
      else ([TokenRead False], Inr fullText))"
| "ollama_read_loop json_parse tok (ReadThrows e tok') fullText =
     (if tok then ([TokenRead True, ReaderCancel], Inl (new_Error cancel_message, True))
      else ([TokenRead False], Inl (e, tok')))"
| "ollama_read_loop json_parse tok (ReadChunk chunk tok' rest) fullText =
     (if tok then ([TokenRead True, ReaderCancel], Inl (new_Error cancel_message, True))
      else
        (let lines = filter (\<lambda>line. trim line \<noteq> []) (split_lines chunk) in
         case ollama_lines json_parse lines fullText of
           (levs, fullText') \<Rightarrow>
             (case ollama_read_loop json_parse tok' rest fullText' of
                (evs, r) \<Rightarrow> (TokenRead False # levs @ evs, r))))"

definition ollama_is_connection_error :: "js_error \<Rightarrow> bool" where
  \<comment> \<open>\<open>error?.message?.includes('fetch') || error?.message?.includes('Network')\<close>\<close>
  "ollama_is_connection_error error =
     (js_includes (err_message error) ''fetch'' \<or> js_includes (err_message error) ''Network'')"

definition ollama_connect_message :: "string \<Rightarrow> string" where
  "ollama_connect_message url =
     ''Cannot connect to Ollama at '' @ url @ ''. Please ensure Ollama is running locally.''"

definition ollama_final_error :: "string \<Rightarrow> js_error \<Rightarrow> js_error" where
  \<comment> \<open>what the \<open>catch\<close> block throws when the last attempt has failed\<close>
  "ollama_final_error what error =
     new_Error (''Failed to process '' @ what @ '' with Ollama: '' @ message_or_unknown error)"

definition ollama_catch ::
  "string \<Rightarrow> string \<Rightarrow> real \<Rightarrow> nat \<Rightarrow> js_error \<Rightarrow> bool \<Rightarrow> event list \<times> catch_result" where
  \<comment> \<open>the \<open>catch\<close> block of the three operations; it draws no random number\<close>
  "ollama_catch url what rnd attempt error tok =
     (if tok then ([TokenRead True], Rethrow (new_Error cancel_message))
      else if ollama_is_connection_error error then
        ([TokenRead False], Rethrow (new_Error (ollama_connect_message url)))
      else if attempt < maxRetries then
        (let delayTime = base_delay attempt
         in ([TokenRead False, StatusUpdate (retry_status ''Retrying in '' delayTime attempt)],
             Retry delayTime))
      else ([TokenRead False], Rethrow (ollama_final_error what error)))"

definition ollama_after_loop :: "string \<Rightarrow> js_error option \<Rightarrow> js_error" where
  "ollama_after_loop what lastError =
     new_Error (''Failed to process '' @ what @ '' with Ollama after '' @ show_nat maxRetries
                @ '' attempts. Last error: '' @ last_error_text error_toString lastError)"

definition ollama_text_request :: "OllamaService \<Rightarrow> string \<Rightarrow> string \<Rightarrow> bool \<Rightarrow> request" where
  "ollama_text_request svc agentPrompt content stream =
     OllamaFetch (baseUrl svc @ ''/api/chat'') (ollama_model svc)
       [OllamaMessage ''user'' (prompt_with_content agentPrompt content) None] stream"

definition ollama_parts_request :: "OllamaService \<Rightarrow> string \<Rightarrow> ContentPart list \<Rightarrow> request" where
  "ollama_parts_request svc agentPrompt parts =
     (let textParts = concat (map (\<lambda>p. case p of TextPart text \<Rightarrow> [text] | ImagePart d m \<Rightarrow> []) parts);
          imageParts = concat (map (\<lambda>p. case p of TextPart text \<Rightarrow> [] | ImagePart d m \<Rightarrow> [d]) parts)
      in OllamaFetch (baseUrl svc @ ''/api/chat'') (ollama_model svc)
           [OllamaMessage ''user'' (agentPrompt @ ''\<newline>\<newline>'' @ join ''\<newline>'' textParts)
              (if 0 < length imageParts then Some imageParts else None)]
           True)"

definition ollama_processText_try ::
  "OllamaService \<Rightarrow> string \<Rightarrow> string \<Rightarrow> (nat \<Rightarrow> json_body http_outcome) \<Rightarrow>
   nat \<Rightarrow> bool \<Rightarrow> event list \<times> try_result" where
  "ollama_processText_try svc agentPrompt content call attempt tok =
     (if tok then ([TokenRead True], Threw (new_Error cancel_message) True)
      else
        (let req = Request (ollama_text_request svc agentPrompt content False) in
         case makeRequest (call attempt) of
           Inl (e, tok') \<Rightarrow> ([TokenRead False, req], Threw e tok')
         | Inr (JsonRejects e tok') \<Rightarrow> ([TokenRead False, req], Threw e tok')
         | Inr (DataMalformed e tok') \<Rightarrow> ([TokenRead False, req, StatusUpdate []], Threw e tok')
         | Inr (DataContent text) \<Rightarrow>
             ([TokenRead False, req, StatusUpdate []], Returned (normalizeOllama text))))"

definition ollama_stream_try ::
  "(string \<Rightarrow> js_value option) \<Rightarrow> request \<Rightarrow> (nat \<Rightarrow> stream_body http_outcome) \<Rightarrow>
   nat \<Rightarrow> bool \<Rightarrow> event list \<times> try_result" where
  \<comment> \<open>the \<open>try\<close> block of \<open>processTextStream\<close> and \<open>generateScriptStream\<close>\<close>
  "ollama_stream_try json_parse req call attempt tok =
     (if tok then ([TokenRead True], Threw (new_Error cancel_message) True)
      else
        (case makeRequest (call attempt) of
           Inl (e, tok') \<Rightarrow> ([TokenRead False, Request req], Threw e tok')
         | Inr (NoReader tok') \<Rightarrow>
             ([TokenRead False, Request req],
              Threw (new_Error ''No response body reader available'') tok')
         | Inr (Reader tok' rs) \<Rightarrow>
             (case ollama_read_loop json_parse tok' rs [] of
                (evs, Inl (e, tok'')) \<Rightarrow> ([TokenRead False, Request req] @ evs, Threw e tok'')
              | (evs, Inr fullText) \<Rightarrow>
                  ([TokenRead False, Request req] @ evs @ [StatusUpdate []],
                   Returned (normalizeOllama fullText)))))"

definition OllamaService_processText ::
  "OllamaService \<Rightarrow> string \<Rightarrow> string \<Rightarrow> json_body http_outcome environment \<Rightarrow>
   event list \<times> (js_error + string)" where
  "OllamaService_processText svc agentPrompt content env =
     retry_loop (ollama_processText_try svc agentPrompt content (transport env))
       (\<lambda>attempt. ollama_catch (baseUrl svc) ''text'' (random env attempt) attempt)
       (ollama_after_loop ''text'') (cancelled_after_wait env)
       0 (cancelled_at_start env) None"

definition OllamaService_processTextStream ::
  "(string \<Rightarrow> js_value option) \<Rightarrow> OllamaService \<Rightarrow> string \<Rightarrow> string \<Rightarrow>
   stream_body http_outcome environment \<Rightarrow> event list \<times> (js_error + string)" where
  "OllamaService_processTextStream json_parse svc agentPrompt content env =
     retry_loop
       (ollama_stream_try json_parse (ollama_text_request svc agentPrompt content True)
          (transport env))
       (\<lambda>attempt. ollama_catch (baseUrl svc) ''text stream'' (random env attempt) attempt)
       (ollama_after_loop ''text stream'') (cancelled_after_wait env)
       0 (cancelled_at_start env) None"

definition OllamaService_generateScriptStream ::
  "(string \<Rightarrow> js_value option) \<Rightarrow> OllamaService \<Rightarrow> string \<Rightarrow> ContentPart list \<Rightarrow>
   stream_body http_outcome environment \<Rightarrow> event list \<times> (js_error + string)" where
  "OllamaService_generateScriptStream json_parse svc agentPrompt parts env =
     retry_loop
       (ollama_stream_try json_parse (ollama_parts_request svc agentPrompt parts) (transport env))
       (\<lambda>attempt. ollama_catch (baseUrl svc) ''multi-modal stream'' (random env attempt) attempt)
       (ollama_after_loop ''multi-modal stream'') (cancelled_after_wait env)
       0 (cancelled_at_start env) None"

section \<open>The vocabulary of the properties\<close>

fun requests :: "event list \<Rightarrow> request list" where
  \<comment> \<open>the transport calls of a run, in order\<close>
  "requests [] = []"
| "requests (Request r # evs) = r # requests evs"
| "requests (ev # evs) = requests evs"

fun waits :: "event list \<Rightarrow> nat list" where
  \<comment> \<open>the sleeps of a run in milliseconds, in order\<close>
  "waits [] = []"
| "waits (Wait d # evs) = d # waits evs"
| "waits (ev # evs) = waits evs"

definition failing_events ::
  "(nat \<Rightarrow> event list) \<Rightarrow> (nat \<Rightarrow> event list) \<Rightarrow> (nat \<Rightarrow> nat) \<Rightarrow> nat \<Rightarrow> nat \<Rightarrow> event list" where
  \<comment> \<open>the events of the attempts \<open>j\<close> to \<open>k - 1\<close> when each of them fails and is retried\<close>
  "failing_events tev cev d j k = concat (map (\<lambda>a. tev a @ cev a @ [Wait (d a)]) [j..<k])"

definition not_cancelled_before :: "nat \<Rightarrow> 'a environment \<Rightarrow> bool" where
  \<comment> \<open>the token is unset when the operation starts and when each of the first \<open>k\<close>
      waits is over\<close>
  "not_cancelled_before k env =
     (\<not> cancelled_at_start env \<and> (\<forall>a<k. \<not> cancelled_after_wait env a))"

definition rejects_before :: "nat \<Rightarrow> 'r call_outcome environment \<Rightarrow> (nat \<Rightarrow> js_error) \<Rightarrow> bool" where
  \<comment> \<open>in each of the first \<open>k\<close> attempts the awaited call rejects, with \<open>err a\<close>, the
      token being unset\<close>
  "rejects_before k env err = (\<forall>a<k. transport env a = Rejects (err a) False)"

definition request_fails_before ::
  "nat \<Rightarrow> 'b http_outcome environment \<Rightarrow> (nat \<Rightarrow> js_error) \<Rightarrow> bool" where
  \<comment> \<open>the same for \<open>makeRequest\<close> of the Ollama adapter\<close>
  "request_fails_before k env err = (\<forall>a<k. makeRequest (transport env a) = Inl (err a, False))"

definition all_before :: "nat \<Rightarrow> (js_error \<Rightarrow> bool) \<Rightarrow> (nat \<Rightarrow> js_error) \<Rightarrow> bool" where
  "all_before k P err = (\<forall>a<k. P (err a))"

definition gemini_retryable :: "(string \<Rightarrow> js_value option) \<Rightarrow> js_error \<Rightarrow> bool" where
  \<comment> \<open>the Gemini \<open>catch\<close> block takes the error neither for a cancellation nor for an
      API key error (and no method call on the parsed message fails)\<close>
  "gemini_retryable json_parse e =
     (gemini_is_cancellation (parseGeminiError json_parse e) = Some False
      \<and> gemini_is_api_key_error (parseGeminiError json_parse e) = Some False)"

definition gemini_unauthorized :: "(string \<Rightarrow> js_value option) \<Rightarrow> js_error \<Rightarrow> bool" where
  "gemini_unauthorized json_parse e =
     (gemini_is_cancellation (parseGeminiError json_parse e) = Some False
      \<and> gemini_is_api_key_error (parseGeminiError json_parse e) = Some True)"

definition openai_retryable :: "js_error \<Rightarrow> bool" where
  "openai_retryable e = (\<not> openai_is_api_key_error e)"

definition ollama_retryable :: "js_error \<Rightarrow> bool" where
  "ollama_retryable e = (\<not> ollama_is_connection_error e)"

definition stopped_after :: "nat \<Rightarrow> event list \<times> (js_error + string) \<Rightarrow> js_error \<Rightarrow> bool" where
  \<comment> \<open>the run made \<open>k + 1\<close> transport calls with \<open>k\<close> sleeps between them and rejected\<close>
  "stopped_after k run final =
     (length (requests (fst run)) = Suc k \<and> length (waits (fst run)) = k \<and> snd run = Inl final)"

definition no_message_content :: "openai_choices \<Rightarrow> bool" where
  \<comment> \<open>no choice at all, or a first choice without a message or without its content\<close>
  "no_message_content choices =
     (case choices of [] \<Rightarrow> True | c # cs \<Rightarrow> (case c of None \<Rightarrow> True | Some None \<Rightarrow> True | Some (Some s) \<Rightarrow> False))"

subsection \<open>Sample inputs\<close>

definition constant_env :: "'a \<Rightarrow> 'a environment" where
  \<comment> \<open>the transport behaves the same in every attempt, nobody cancels, and
      \<open>Math.random()\<close> returns one half\<close>
  "constant_env outcome =
     \<lparr>cancelled_at_start = False, transport = (\<lambda>a. outcome), random = (\<lambda>a. 1 / 2),
      cancelled_after_wait = (\<lambda>a. False)\<rparr>"

definition quota_json :: string where
  "quota_json = ''{\"error\":{\"code\":429,\"message\":\"quota\",\"status\":\"RESOURCE_EXHAUSTED\"}}''"

definition bad_key_json :: string where
  "bad_key_json =
     ''{\"error\":{\"code\":400,\"message\":\"API key not valid\",\"status\":\"INVALID_ARGUMENT\"}}''"

definition sample_parse :: "string \<Rightarrow> js_value option" where
  \<comment> \<open>\<open>JSON.parse\<close> on the two JSON texts above; it throws on the other texts used below\<close>
  "sample_parse s =
     (if s = quota_json then
        Some (Obj [(''error'', Obj [(''code'', Num 429), (''message'', Str ''quota''),
                                    (''status'', Str ''RESOURCE_EXHAUSTED'')])])
      else if s = bad_key_json then
        Some (Obj [(''error'', Obj [(''code'', Num 400), (''message'', Str ''API key not valid''),
                                    (''status'', Str ''INVALID_ARGUMENT'')])])
      else None)"

definition thrown :: "string \<Rightarrow> int option \<Rightarrow> js_error" where
  "thrown msg st = \<lparr>err_name = ''Error'', err_message = msg, err_status = st, err_json = ''{}''\<rparr>"

definition fetch_failed :: js_error where
  \<comment> \<open>what \<open>fetch\<close> rejects with when nothing listens at the address\<close>
  "fetch_failed =
     \<lparr>err_name = ''TypeError'', err_message = ''Failed to fetch'', err_status = None,
      err_json = ''{}''\<rparr>"

definition sample_gemini :: GeminiService where
  "sample_gemini =
     new_GeminiService \<lparr>provider = Gemini, apiKey = ''key'', model = ''gemini-2.0-flash-exp'',
                          ollamaBaseUrl = None\<rparr>"

definition sample_openai :: OpenAIService where
  "sample_openai =
     new_OpenAIService \<lparr>provider = OpenAI, apiKey = ''key'', model = ''gpt-4o'',
                          ollamaBaseUrl = None\<rparr>"

definition sample_ollama :: OllamaService where
  "sample_ollama =
     new_OllamaService \<lparr>provider = Ollama, apiKey = [], model = ''llama3.2'',
                          ollamaBaseUrl = None\<rparr>"

definition always :: "'a \<Rightarrow> nat \<Rightarrow> 'a" where
  \<comment> \<open>the same value in every attempt\<close>
  "always x a = x"

definition server_error :: js_error where
  \<comment> \<open>an error of the OpenAI client for an answer with status 500\<close>
  "server_error = thrown ''500 Internal Server Error'' (Some 500)"

definition quota_error :: js_error where
  \<comment> \<open>an error of the Gemini client whose message is the JSON text of the answer\<close>
  "quota_error = thrown quota_json None"

definition ollama_500 :: js_error where
  \<comment> \<open>what \<open>makeRequest\<close> throws for an answer with status 500\<close>
  "ollama_500 = new_Error ''Ollama API error: 500 - internal error''"

definition gemini_quota_env :: "string option stream call_outcome environment" where
  "gemini_quota_env = constant_env (Rejects quota_error False)"

definition openai_failing_env :: "openai_choices call_outcome environment" where
  "openai_failing_env = constant_env (Rejects server_error False)"

definition openai_failing_stream_env :: "openai_choices stream call_outcome environment" where
  "openai_failing_stream_env = constant_env (Rejects server_error False)"

definition ollama_failing_env :: "json_body http_outcome environment" where
  "ollama_failing_env = constant_env (HttpNotOk 500 (Inr ''internal error'') False)"

definition ollama_failing_stream_env :: "stream_body http_outcome environment" where
  "ollama_failing_stream_env = constant_env (HttpNotOk 500 (Inr ''internal error'') False)"

definition ollama_unreachable_stream_env :: "stream_body http_outcome environment" where
  \<comment> \<open>nothing listens at the address of the daemon\<close>
  "ollama_unreachable_stream_env = constant_env (FetchRejects fetch_failed False)"

definition bad_key_error :: js_error where
  \<comment> \<open>the error of the Gemini client for a key that is not valid\<close>
  "bad_key_error = thrown bad_key_json None"

definition status_401_error :: js_error where
  \<comment> \<open>the error of the OpenAI client for an answer with status 401\<close>
  "status_401_error = thrown ''401 Incorrect API key provided'' (Some 401)"

definition gemini_bad_key_env :: "string option stream call_outcome environment" where
  "gemini_bad_key_env = constant_env (Rejects bad_key_error False)"

definition openai_401_env :: "openai_choices call_outcome environment" where
  "openai_401_env = constant_env (Rejects status_401_error False)"

definition openai_401_stream_env :: "openai_choices stream call_outcome environment" where
  "openai_401_stream_env = constant_env (Rejects status_401_error False)"

definition ollama_401_env :: "json_body http_outcome environment" where
  \<comment> \<open>a proxy in front of the daemon answers every request with status 401\<close>
  "ollama_401_env = constant_env (HttpNotOk 401 (Inr ''unauthorized'') False)"

definition ollama_unreachable_env :: "json_body http_outcome environment" where
  \<comment> \<open>nothing listens at the address of the daemon\<close>
  "ollama_unreachable_env = constant_env (FetchRejects fetch_failed False)"

definition openai_no_choices_env :: "openai_choices call_outcome environment" where
  \<comment> \<open>the first call is answered with an empty list of choices\<close>
  "openai_no_choices_env = constant_env (Resolves [])"

definition openai_null_content_env :: "openai_choices call_outcome environment" where
  \<comment> \<open>the first call is answered with one choice whose message has no content\<close>
  "openai_null_content_env = constant_env (Resolves [Some None])"

definition ollama_401 :: js_error where
  \<comment> \<open>what \<open>makeRequest\<close> throws for an answer with status 401\<close>
  "ollama_401 = new_Error ''Ollama API error: 401 - unauthorized''"

definition overloaded_error :: js_error where
  \<comment> \<open>an error of the OpenAI client for an answer with status 503\<close>
  "overloaded_error = thrown ''503 Service Unavailable'' (Some 503)"

definition rate_limit_error :: js_error where
  \<comment> \<open>an error of the OpenAI client for an answer with status 429\<close>
  "rate_limit_error = thrown ''429 Too Many Requests'' (Some 429)"

definition ollama_429 :: js_error where
  \<comment> \<open>what \<open>makeRequest\<close> throws for an answer with status 429\<close>
  "ollama_429 = new_Error ''Ollama API error: 429 - too many requests''"

definition empty_key_config :: AIConfig where
  \<comment> \<open>the OpenAI provider selected, no API key entered\<close>
  "empty_key_config = \<lparr>provider = OpenAI, apiKey = [], model = ''gpt-4o'', ollamaBaseUrl = None\<rparr>"

definition openai_answer_env :: "openai_choices call_outcome environment" where
  \<comment> \<open>the transport answers the first call\<close>
  "openai_answer_env = constant_env (Resolves [Some (Some ''answer'')])"

section \<open>The retry loop\<close>

lemma requests_append [simp]: "requests (xs @ ys) = requests xs @ requests ys"
  by (induction xs rule: requests.induct) auto

lemma waits_append [simp]: "waits (xs @ ys) = waits xs @ waits ys"
  by (induction xs rule: waits.induct) auto

declare retry_loop.simps [simp del]

declare show_nat.simps [simp del]

lemma retry_loop_return:
  assumes "attempt \<le> maxRetries" and "T attempt tok = (evs, Returned text)"
  shows "retry_loop T C A W attempt tok le = (evs, Inr text)"
  using assms by (subst retry_loop.simps) simp

lemma retry_loop_rethrow:
  assumes "attempt \<le> maxRetries" and "T attempt tok = (evs, Threw e tok')"
    and "C attempt e tok' = (cevs, Rethrow e')"
  shows "retry_loop T C A W attempt tok le = (evs @ cevs, Inl e')"
  using assms by (subst retry_loop.simps) simp

lemma retry_loop_retry:
  assumes "attempt \<le> maxRetries" and "T attempt tok = (evs, Threw e tok')"
    and "C attempt e tok' = (cevs, Retry d)"
  shows "retry_loop T C A W attempt tok le =
           (evs @ cevs @ [Wait d] @ fst (retry_loop T C A W (Suc attempt) (W attempt) (Some e)),
            snd (retry_loop T C A W (Suc attempt) (W attempt) (Some e)))"
  using assms by (subst retry_loop.simps) (simp split: prod.splits)

lemma retry_loop_lastError:
  assumes "attempt \<le> maxRetries"
  shows "retry_loop T C A W attempt tok le = retry_loop T C A W attempt tok le'"
  using assms by (subst retry_loop.simps, subst (2) retry_loop.simps) simp

lemma retry_loop_failing_prefix:
  assumes fails: "\<And>a. a < k \<Longrightarrow> T a False = (tev a, Threw (err a) False)"
    and retries: "\<And>a. a < k \<Longrightarrow> C a (err a) False = (cev a, Retry (d a))"
    and quiet: "\<And>a. a < k \<Longrightarrow> \<not> W a"
    and k: "k \<le> maxRetries"
  shows "j \<le> k \<Longrightarrow>
         retry_loop T C A W j False le =
           (failing_events tev cev d j k @ fst (retry_loop T C A W k False le),
            snd (retry_loop T C A W k False le))"
proof (induction "k - j" arbitrary: j le)
  case 0
  then have "j = k" by simp
  then show ?case by (simp add: failing_events_def)
next
  case (Suc n)
  then have jk: "j < k" and n: "n = k - Suc j" and le: "Suc j \<le> k" by auto
  have j6: "j \<le> maxRetries" using jk k by simp
  have step: "retry_loop T C A W j False le =
      (tev j @ cev j @ [Wait (d j)] @ fst (retry_loop T C A W (Suc j) (W j) (Some (err j))),
       snd (retry_loop T C A W (Suc j) (W j) (Some (err j))))"
    using j6 fails [OF jk] retries [OF jk] by (rule retry_loop_retry)
  have wj: "W j = False" using quiet [OF jk] by simp
  have ih: "retry_loop T C A W (Suc j) False (Some (err j)) =
      (failing_events tev cev d (Suc j) k @ fst (retry_loop T C A W k False (Some (err j))),
       snd (retry_loop T C A W k False (Some (err j))))"
    by (rule Suc.hyps(1) [OF n le])
  have same: "retry_loop T C A W k False (Some (err j)) = retry_loop T C A W k False le"
    by (rule retry_loop_lastError [OF k])
  have unfold: "failing_events tev cev d j k =
      tev j @ cev j @ [Wait (d j)] @ failing_events tev cev d (Suc j) k"
    using jk by (simp add: failing_events_def upt_conv_Cons)
  show ?case
    by (simp add: step wj ih same unfold)
qed

lemma requests_failing_events:
  assumes "\<And>a. a < k \<Longrightarrow> requests (tev a) = [req]" and "\<And>a. a < k \<Longrightarrow> requests (cev a) = []"
  shows "requests (failing_events tev cev d 0 k) = replicate k req"
  using assms
proof (induction k)
  case 0
  show ?case by (simp add: failing_events_def)
next
  case (Suc k)
  have "failing_events tev cev d 0 (Suc k) =
          failing_events tev cev d 0 k @ tev k @ cev k @ [Wait (d k)]"
    by (simp add: failing_events_def)
  with Suc show ?case by (simp add: replicate_append_same)
qed

lemma waits_failing_events:
  assumes "\<And>a. a < k \<Longrightarrow> waits (tev a) = []" and "\<And>a. a < k \<Longrightarrow> waits (cev a) = []"
  shows "waits (failing_events tev cev d 0 k) = map d [0..<k]"
  using assms
proof (induction k)
  case 0
  show ?case by (simp add: failing_events_def)
next
  case (Suc k)
  have "failing_events tev cev d 0 (Suc k) =
          failing_events tev cev d 0 k @ tev k @ cev k @ [Wait (d k)]"
    by (simp add: failing_events_def)
  with Suc show ?case by simp
qed

text \<open>
  The shape all operations share: an attempt whose transport call rejects leaves a read
  of the token and the request; a \<open>catch\<close> block that retries leaves a read of the token
  and a status update.
\<close>

lemma retry_loop_after_rejections:
  assumes fails: "\<And>a. a < k \<Longrightarrow> T a False = ([TokenRead False, Request req], Threw (err a) False)"
    and retries: "\<And>a. a < k \<Longrightarrow> C a (err a) False = ([TokenRead False, StatusUpdate (msg a)], Retry (d a))"
    and quiet: "\<And>a. a < k \<Longrightarrow> \<not> W a"
    and k: "k \<le> maxRetries"
  shows "\<exists>pre. retry_loop T C A W 0 False None =
                 (pre @ fst (retry_loop T C A W k False None), snd (retry_loop T C A W k False None))
               \<and> requests pre = replicate k req \<and> waits pre = map d [0..<k]"
proof -
  let ?tev = "\<lambda>a::nat. [TokenRead False, Request req]"
  let ?cev = "\<lambda>a. [TokenRead False, StatusUpdate (msg a)]"
  have "retry_loop T C A W 0 False None =
          (failing_events ?tev ?cev d 0 k @ fst (retry_loop T C A W k False None),
           snd (retry_loop T C A W k False None))"
  proof (rule retry_loop_failing_prefix [where err = err and tev = ?tev and cev = ?cev and k = k])
    show "\<And>a. a < k \<Longrightarrow> T a False = ([TokenRead False, Request req], Threw (err a) False)"
      by (rule fails)
    show "\<And>a. a < k \<Longrightarrow> C a (err a) False = ([TokenRead False, StatusUpdate (msg a)], Retry (d a))"
      by (rule retries)
    show "\<And>a. a < k \<Longrightarrow> \<not> W a" by (rule quiet)
    show "k \<le> maxRetries" by (rule k)
    show "0 \<le> k" by simp
  qed
  moreover have "requests (failing_events ?tev ?cev d 0 k) = replicate k req"
    by (rule requests_failing_events) simp_all
  moreover have "waits (failing_events ?tev ?cev d 0 k) = map d [0..<k]"
    by (rule waits_failing_events) simp_all
  ultimately show ?thesis by blast
qed

lemma stopped_after_rejections:
  assumes fails: "\<And>a. a < Suc k \<Longrightarrow> T a False = ([TokenRead False, Request req], Threw (err a) False)"
    and retries: "\<And>a. a < k \<Longrightarrow> C a (err a) False = ([TokenRead False, StatusUpdate (msg a)], Retry (d a))"
    and last: "C k (err k) False = ([TokenRead False], Rethrow final)"
    and quiet: "\<And>a. a < k \<Longrightarrow> \<not> W a"
    and k: "k \<le> maxRetries"
  shows "stopped_after k (retry_loop T C A W 0 False None) final"
proof -
  obtain pre where pre: "retry_loop T C A W 0 False None =
      (pre @ fst (retry_loop T C A W k False None), snd (retry_loop T C A W k False None))"
    and rq: "requests pre = replicate k req" and ws: "waits pre = map d [0..<k]"
    using retry_loop_after_rejections [where T = T and C = C and W = W and k = k and A = A
        and err = err and req = req and msg = msg and d = d] fails retries quiet k
    by (metis less_Suc_eq)
  have "retry_loop T C A W k False None = ([TokenRead False, Request req] @ [TokenRead False], Inl final)"
    using k fails [of k] last by (intro retry_loop_rethrow) simp_all
  with pre rq ws show ?thesis by (simp add: stopped_after_def)
qed

lemma returned_after_rejections:
  assumes fails: "\<And>a. a < k \<Longrightarrow> T a False = ([TokenRead False, Request req], Threw (err a) False)"
    and retries: "\<And>a. a < k \<Longrightarrow> C a (err a) False = ([TokenRead False, StatusUpdate (msg a)], Retry (d a))"
    and last: "T k False = (evs, Returned text)"
    and quiet: "\<And>a. a < k \<Longrightarrow> \<not> W a"
    and k: "k \<le> maxRetries"
  shows "snd (retry_loop T C A W 0 False None) = Inr text"
proof -
  obtain pre where pre: "retry_loop T C A W 0 False None =
      (pre @ fst (retry_loop T C A W k False None), snd (retry_loop T C A W k False None))"
    using retry_loop_after_rejections [where T = T and C = C and W = W and k = k and A = A
        and err = err and req = req and msg = msg and d = d] fails retries quiet k
    by metis
  have "retry_loop T C A W k False None = (evs, Inr text)"
    using k last by (rule retry_loop_return)
  with pre show ?thesis by simp
qed

section \<open>The \<open>try\<close> and \<open>catch\<close> blocks of the adapters\<close>

lemma stream_try_rejects:
  "call a = Rejects e tok' \<Longrightarrow>
   stream_try req text_of emit nrm call a False = ([TokenRead False, Request req], Threw e tok')"
  by (simp add: stream_try_def)

lemma openai_processText_try_rejects:
  "call a = Rejects e tok' \<Longrightarrow>
   openai_processText_try svc agentPrompt content call a False =
     ([TokenRead False, Request (openai_text_request svc agentPrompt content False)], Threw e tok')"
  by (simp add: openai_processText_try_def)

lemma ollama_processText_try_fails:
  "makeRequest (call a) = Inl (e, tok') \<Longrightarrow>
   ollama_processText_try svc agentPrompt content call a False =
     ([TokenRead False, Request (ollama_text_request svc agentPrompt content False)], Threw e tok')"
  by (simp add: ollama_processText_try_def)

lemma ollama_stream_try_fails:
  "makeRequest (call a) = Inl (e, tok') \<Longrightarrow>
   ollama_stream_try json_parse req call a False = ([TokenRead False, Request req], Threw e tok')"
  by (simp add: ollama_stream_try_def)

lemma openai_catch_retry:
  "openai_retryable e \<Longrightarrow> a < maxRetries \<Longrightarrow>
   openai_catch what rnd a e False =
     ([TokenRead False,
       StatusUpdate (retry_status ''The AI model is busy. Retrying in '' (openai_delayTime rnd a e) a)],
      Retry (openai_delayTime rnd a e))"
  by (simp add: openai_catch_def openai_retryable_def Let_def)

lemma openai_catch_final:
  "openai_retryable e \<Longrightarrow>
   openai_catch what rnd maxRetries e False = ([TokenRead False], Rethrow (openai_final_error what e))"
  by (simp add: openai_catch_def openai_retryable_def Let_def)

lemma openai_catch_unauthorized:
  "openai_is_api_key_error e \<Longrightarrow>
   openai_catch what rnd a e False = ([TokenRead False], Rethrow (new_Error openai_api_key_message))"
  by (simp add: openai_catch_def)

lemma gemini_catch_retry:
  "gemini_retryable jp e \<Longrightarrow> a < maxRetries \<Longrightarrow>
   gemini_catch jp what rnd a e False =
     ([TokenRead False,
       StatusUpdate (retry_status ''The AI model is very busy. Patiently retrying in ''
                       (gemini_delayTime rnd a (parseGeminiError jp e)) a)],
      Retry (gemini_delayTime rnd a (parseGeminiError jp e)))"
  by (simp add: gemini_catch_def gemini_retryable_def Let_def)

lemma gemini_catch_final:
  "gemini_retryable jp e \<Longrightarrow>
   gemini_catch jp what rnd maxRetries e False =
     ([TokenRead False], Rethrow (gemini_final_error what (parseGeminiError jp e)))"
  by (simp add: gemini_catch_def gemini_retryable_def Let_def)

lemma gemini_catch_unauthorized:
  "gemini_unauthorized jp e \<Longrightarrow>
   gemini_catch jp what rnd a e False = ([TokenRead False], Rethrow (new_Error gemini_api_key_message))"
  by (simp add: gemini_catch_def gemini_unauthorized_def Let_def)

lemma ollama_catch_retry:
  "ollama_retryable e \<Longrightarrow> a < maxRetries \<Longrightarrow>
   ollama_catch url what rnd a e False =
     ([TokenRead False, StatusUpdate (retry_status ''Retrying in '' (base_delay a) a)],
      Retry (base_delay a))"
  by (simp add: ollama_catch_def ollama_retryable_def Let_def)

lemma ollama_catch_final:
  "ollama_retryable e \<Longrightarrow>
   ollama_catch url what rnd maxRetries e False = ([TokenRead False], Rethrow (ollama_final_error what e))"
  by (simp add: ollama_catch_def ollama_retryable_def Let_def)

lemma ollama_catch_connection:
  "ollama_is_connection_error e \<Longrightarrow>
   ollama_catch url what rnd a e False =
     ([TokenRead False], Rethrow (new_Error (ollama_connect_message url)))"
  by (simp add: ollama_catch_def)

subsection \<open>The loop with the \<open>catch\<close> block of each adapter\<close>

lemma openai_loop_stops:
  assumes fails: "\<And>a. a < Suc k \<Longrightarrow> T a False = ([TokenRead False, Request req], Threw (err a) False)"
    and retryable: "all_before k openai_retryable err"
    and last: "openai_catch what (rnd k) k (err k) False = ([TokenRead False], Rethrow final)"
    and quiet: "\<And>a. a < k \<Longrightarrow> \<not> W a"
    and k: "k \<le> maxRetries"
  shows "stopped_after k (retry_loop T (\<lambda>attempt. openai_catch what (rnd attempt) attempt) A W 0 False None) final"
proof (rule stopped_after_rejections [where err = err and req = req
      and d = "\<lambda>a. openai_delayTime (rnd a) a (err a)"
      and msg = "\<lambda>a. retry_status ''The AI model is busy. Retrying in '' (openai_delayTime (rnd a) a (err a)) a"])
  fix a assume "a < Suc k"
  then show "T a False = ([TokenRead False, Request req], Threw (err a) False)" by (rule fails)
next
  fix a assume a: "a < k"
  then have "openai_retryable (err a)" using retryable by (simp add: all_before_def)
  moreover have "a < maxRetries" using a k by simp
  ultimately show "openai_catch what (rnd a) a (err a) False =
      ([TokenRead False, StatusUpdate (retry_status ''The AI model is busy. Retrying in ''
          (openai_delayTime (rnd a) a (err a)) a)], Retry (openai_delayTime (rnd a) a (err a)))"
    by (rule openai_catch_retry)
next
  show "openai_catch what (rnd k) k (err k) False = ([TokenRead False], Rethrow final)" by (rule last)
next
  fix a assume "a < k" then show "\<not> W a" by (rule quiet)
next
  show "k \<le> maxRetries" by (rule k)
qed

lemma gemini_loop_stops:
  assumes fails: "\<And>a. a < Suc k \<Longrightarrow> T a False = ([TokenRead False, Request req], Threw (err a) False)"
    and retryable: "all_before k (gemini_retryable jp) err"
    and last: "gemini_catch jp what (rnd k) k (err k) False = ([TokenRead False], Rethrow final)"
    and quiet: "\<And>a. a < k \<Longrightarrow> \<not> W a"
    and k: "k \<le> maxRetries"
  shows "stopped_after k (retry_loop T (\<lambda>attempt. gemini_catch jp what (rnd attempt) attempt) A W 0 False None) final"
proof (rule stopped_after_rejections [where err = err and req = req
      and d = "\<lambda>a. gemini_delayTime (rnd a) a (parseGeminiError jp (err a))"
      and msg = "\<lambda>a. retry_status ''The AI model is very busy. Patiently retrying in ''
                        (gemini_delayTime (rnd a) a (parseGeminiError jp (err a))) a"])
  fix a assume "a < Suc k"
  then show "T a False = ([TokenRead False, Request req], Threw (err a) False)" by (rule fails)
next
  fix a assume a: "a < k"
  then have "gemini_retryable jp (err a)" using retryable by (simp add: all_before_def)
  moreover have "a < maxRetries" using a k by simp
  ultimately show "gemini_catch jp what (rnd a) a (err a) False =
      ([TokenRead False, StatusUpdate (retry_status ''The AI model is very busy. Patiently retrying in ''
          (gemini_delayTime (rnd a) a (parseGeminiError jp (err a))) a)],
       Retry (gemini_delayTime (rnd a) a (parseGeminiError jp (err a))))"
    by (rule gemini_catch_retry)
next
  show "gemini_catch jp what (rnd k) k (err k) False = ([TokenRead False], Rethrow final)" by (rule last)
next
  fix a assume "a < k" then show "\<not> W a" by (rule quiet)
next
  show "k \<le> maxRetries" by (rule k)
qed

lemma ollama_loop_stops:
  assumes fails: "\<And>a. a < Suc k \<Longrightarrow> T a False = ([TokenRead False, Request req], Threw (err a) False)"
    and retryable: "all_before k ollama_retryable err"
    and last: "ollama_catch url what (rnd k) k (err k) False = ([TokenRead False], Rethrow final)"
    and quiet: "\<And>a. a < k \<Longrightarrow> \<not> W a"
    and k: "k \<le> maxRetries"
  shows "stopped_after k (retry_loop T (\<lambda>attempt. ollama_catch url what (rnd attempt) attempt) A W 0 False None) final"
proof (rule stopped_after_rejections [where err = err and req = req
      and d = "\<lambda>a. base_delay a"
      and msg = "\<lambda>a. retry_status ''Retrying in '' (base_delay a) a"])
  fix a assume "a < Suc k"
  then show "T a False = ([TokenRead False, Request req], Threw (err a) False)" by (rule fails)
next
  fix a assume a: "a < k"
  then have "ollama_retryable (err a)" using retryable by (simp add: all_before_def)
  moreover have "a < maxRetries" using a k by simp
  ultimately show "ollama_catch url what (rnd a) a (err a) False =
      ([TokenRead False, StatusUpdate (retry_status ''Retrying in '' (base_delay a) a)],
       Retry (base_delay a))"
    by (rule ollama_catch_retry)
next
  show "ollama_catch url what (rnd k) k (err k) False = ([TokenRead False], Rethrow final)" by (rule last)
next
  fix a assume "a < k" then show "\<not> W a" by (rule quiet)
next
  show "k \<le> maxRetries" by (rule k)
qed

subsection \<open>Each operation after a run of rejected calls\<close>

lemma GeminiService_processText_stops:
  assumes quiet: "not_cancelled_before k env"
    and fails: "rejects_before (Suc k) env err"
    and retryable: "all_before k (gemini_retryable jp) err"
    and last: "gemini_catch jp ''text'' (random env k) k (err k) False = ([TokenRead False], Rethrow final)"
    and k: "k \<le> maxRetries"
  shows "stopped_after k (GeminiService_processText jp svc agentPrompt content env) final"
proof -
  have start: "cancelled_at_start env = False"
    using quiet by (simp add: not_cancelled_before_def)
  show ?thesis
    unfolding GeminiService_processText_def start
  proof (rule gemini_loop_stops [where err = err and rnd = "random env" and req = "gemini_text_request svc agentPrompt content"])
    fix a assume "a < Suc k"
    then have "transport env a = Rejects (err a) False"
      using fails by (simp add: rejects_before_def)
    then show "stream_try (gemini_text_request svc agentPrompt content) chunk_text False normalizeGemini (transport env) a False =
        ([TokenRead False, Request (gemini_text_request svc agentPrompt content)], Threw (err a) False)"
      by (rule stream_try_rejects)
  next
    show "all_before k (gemini_retryable jp) err" by (rule retryable)
  next
    show "gemini_catch jp ''text'' (random env k) k (err k) False = ([TokenRead False], Rethrow final)"
      by (rule last)
  next
    fix a assume "a < k"
    then show "\<not> cancelled_after_wait env a"
      using quiet by (simp add: not_cancelled_before_def)
  next
    show "k \<le> maxRetries" by (rule k)
  qed
qed

lemma GeminiService_processTextStream_stops:
  assumes quiet: "not_cancelled_before k env"
    and fails: "rejects_before (Suc k) env err"
    and retryable: "all_before k (gemini_retryable jp) err"
    and last: "gemini_catch jp ''text stream'' (random env k) k (err k) False = ([TokenRead False], Rethrow final)"
    and k: "k \<le> maxRetries"
  shows "stopped_after k (GeminiService_processTextStream jp svc agentPrompt content env) final"
proof -
  have start: "cancelled_at_start env = False"
    using quiet by (simp add: not_cancelled_before_def)
  show ?thesis
    unfolding GeminiService_processTextStream_def start
  proof (rule gemini_loop_stops [where err = err and rnd = "random env" and req = "gemini_text_request svc agentPrompt content"])
    fix a assume "a < Suc k"
    then have "transport env a = Rejects (err a) False"
      using fails by (simp add: rejects_before_def)
    then show "stream_try (gemini_text_request svc agentPrompt content) chunk_text True normalizeGemini (transport env) a False =
        ([TokenRead False, Request (gemini_text_request svc agentPrompt content)], Threw (err a) False)"
      by (rule stream_try_rejects)
  next
    show "all_before k (gemini_retryable jp) err" by (rule retryable)
  next
    show "gemini_catch jp ''text stream'' (random env k) k (err k) False = ([TokenRead False], Rethrow final)"
      by (rule last)
  next
    fix a assume "a < k"
    then show "\<not> cancelled_after_wait env a"
      using quiet by (simp add: not_cancelled_before_def)
  next
    show "k \<le> maxRetries" by (rule k)
  qed
qed

lemma GeminiService_generateScriptStream_stops:
  assumes quiet: "not_cancelled_before k env"
    and fails: "rejects_before (Suc k) env err"
    and retryable: "all_before k (gemini_retryable jp) err"
    and last: "gemini_catch jp ''multi-modal stream'' (random env k) k (err k) False = ([TokenRead False], Rethrow final)"
    and k: "k \<le> maxRetries"
  shows "stopped_after k (GeminiService_generateScriptStream jp svc agentPrompt parts env) final"
proof -
  have start: "cancelled_at_start env = False"
    using quiet by (simp add: not_cancelled_before_def)
  show ?thesis
    unfolding GeminiService_generateScriptStream_def start
  proof (rule gemini_loop_stops [where err = err and rnd = "random env" and req = "gemini_parts_request svc agentPrompt parts"])
    fix a assume "a < Suc k"
    then have "transport env a = Rejects (err a) False"
      using fails by (simp add: rejects_before_def)
    then show "stream_try (gemini_parts_request svc agentPrompt parts) chunk_text True normalizeGemini (transport env) a False =
        ([TokenRead False, Request (gemini_parts_request svc agentPrompt parts)], Threw (err a) False)"
      by (rule stream_try_rejects)
  next
    show "all_before k (gemini_retryable jp) err" by (rule retryable)
  next
    show "gemini_catch jp ''multi-modal stream'' (random env k) k (err k) False = ([TokenRead False], Rethrow final)"
      by (rule last)
  next
    fix a assume "a < k"
    then show "\<not> cancelled_after_wait env a"
      using quiet by (simp add: not_cancelled_before_def)
  next
    show "k \<le> maxRetries" by (rule k)
  qed
qed

lemma OpenAIService_processText_stops:
  assumes quiet: "not_cancelled_before k env"
    and fails: "rejects_before (Suc k) env err"
    and retryable: "all_before k openai_retryable err"
    and last: "openai_catch ''text'' (random env k) k (err k) False = ([TokenRead False], Rethrow final)"
    and k: "k \<le> maxRetries"
  shows "stopped_after k (OpenAIService_processText svc agentPrompt content env) final"
proof -
  have start: "cancelled_at_start env = False"
    using quiet by (simp add: not_cancelled_before_def)
  show ?thesis
    unfolding OpenAIService_processText_def start
  proof (rule openai_loop_stops [where err = err and rnd = "random env" and req = "openai_text_request svc agentPrompt content False"])
    fix a assume "a < Suc k"
    then have "transport env a = Rejects (err a) False"
      using fails by (simp add: rejects_before_def)
    then show "openai_processText_try svc agentPrompt content (transport env) a False =
        ([TokenRead False, Request (openai_text_request svc agentPrompt content False)], Threw (err a) False)"
      by (rule openai_processText_try_rejects)
  next
    show "all_before k openai_retryable err" by (rule retryable)
  next
    show "openai_catch ''text'' (random env k) k (err k) False = ([TokenRead False], Rethrow final)"
      by (rule last)
  next
    fix a assume "a < k"
    then show "\<not> cancelled_after_wait env a"
      using quiet by (simp add: not_cancelled_before_def)
  next
    show "k \<le> maxRetries" by (rule k)
  qed
qed

lemma OpenAIService_processTextStream_stops:
  assumes quiet: "not_cancelled_before k env"
    and fails: "rejects_before (Suc k) env err"
    and retryable: "all_before k openai_retryable err"
    and last: "openai_catch ''text stream'' (random env k) k (err k) False = ([TokenRead False], Rethrow final)"
    and k: "k \<le> maxRetries"
  shows "stopped_after k (OpenAIService_processTextStream svc agentPrompt content env) final"
proof -
  have start: "cancelled_at_start env = False"
    using quiet by (simp add: not_cancelled_before_def)
  show ?thesis
    unfolding OpenAIService_processTextStream_def start
  proof (rule openai_loop_stops [where err = err and rnd = "random env" and req = "openai_text_request svc agentPrompt content True"])
    fix a assume "a < Suc k"
    then have "transport env a = Rejects (err a) False"
      using fails by (simp add: rejects_before_def)
    then show "stream_try (openai_text_request svc agentPrompt content True) first_content True normalizeOpenAI (transport env) a False =
        ([TokenRead False, Request (openai_text_request svc agentPrompt content True)], Threw (err a) False)"
      by (rule stream_try_rejects)
  next
    show "all_before k openai_retryable err" by (rule retryable)
  next
    show "openai_catch ''text stream'' (random env k) k (err k) False = ([TokenRead False], Rethrow final)"
      by (rule last)
  next
    fix a assume "a < k"
    then show "\<not> cancelled_after_wait env a"
      using quiet by (simp add: not_cancelled_before_def)
  next
    show "k \<le> maxRetries" by (rule k)
  qed
qed

lemma OpenAIService_generateScriptStream_stops:
  assumes quiet: "not_cancelled_before k env"
    and fails: "rejects_before (Suc k) env err"
    and retryable: "all_before k openai_retryable err"
    and last: "openai_catch ''multi-modal stream'' (random env k) k (err k) False = ([TokenRead False], Rethrow final)"
    and k: "k \<le> maxRetries"
  shows "stopped_after k (OpenAIService_generateScriptStream svc agentPrompt parts env) final"
proof -
  have start: "cancelled_at_start env = False"
    using quiet by (simp add: not_cancelled_before_def)
  show ?thesis
    unfolding OpenAIService_generateScriptStream_def start
  proof (rule openai_loop_stops [where err = err and rnd = "random env" and req = "openai_parts_request svc agentPrompt parts"])
    fix a assume "a < Suc k"
    then have "transport env a = Rejects (err a) False"
      using fails by (simp add: rejects_before_def)
    then show "stream_try (openai_parts_request svc agentPrompt parts) first_content True normalizeOpenAI (transport env) a False =
        ([TokenRead False, Request (openai_parts_request svc agentPrompt parts)], Threw (err a) False)"
      by (rule stream_try_rejects)
  next
    show "all_before k openai_retryable err" by (rule retryable)
  next
    show "openai_catch ''multi-modal stream'' (random env k) k (err k) False = ([TokenRead False], Rethrow final)"
      by (rule last)
  next
    fix a assume "a < k"
    then show "\<not> cancelled_after_wait env a"
      using quiet by (simp add: not_cancelled_before_def)
  next
    show "k \<le> maxRetries" by (rule k)
  qed
qed

lemma OllamaService_processText_stops:
  assumes quiet: "not_cancelled_before k env"
    and fails: "request_fails_before (Suc k) env err"
    and retryable: "all_before k ollama_retryable err"
    and last: "ollama_catch (baseUrl svc) ''text'' (random env k) k (err k) False = ([TokenRead False], Rethrow final)"
    and k: "k \<le> maxRetries"
  shows "stopped_after k (OllamaService_processText svc agentPrompt content env) final"
proof -
  have start: "cancelled_at_start env = False"
    using quiet by (simp add: not_cancelled_before_def)
  show ?thesis
    unfolding OllamaService_processText_def start
  proof (rule ollama_loop_stops [where err = err and rnd = "random env" and req = "ollama_text_request svc agentPrompt content False"])
    fix a assume "a < Suc k"
    then have "makeRequest (transport env a) = Inl (err a, False)"
      using fails by (simp add: request_fails_before_def)
    then show "ollama_processText_try svc agentPrompt content (transport env) a False =
        ([TokenRead False, Request (ollama_text_request svc agentPrompt content False)], Threw (err a) False)"
      by (rule ollama_processText_try_fails)
  next
    show "all_before k ollama_retryable err" by (rule retryable)
  next
    show "ollama_catch (baseUrl svc) ''text'' (random env k) k (err k) False = ([TokenRead False], Rethrow final)"
      by (rule last)
  next
    fix a assume "a < k"
    then show "\<not> cancelled_after_wait env a"
      using quiet by (simp add: not_cancelled_before_def)
  next
    show "k \<le> maxRetries" by (rule k)
  qed
qed

lemma OllamaService_processTextStream_stops:
  assumes quiet: "not_cancelled_before k env"
    and fails: "request_fails_before (Suc k) env err"
    and retryable: "all_before k ollama_retryable err"
    and last: "ollama_catch (baseUrl svc) ''text stream'' (random env k) k (err k) False = ([TokenRead False], Rethrow final)"
    and k: "k \<le> maxRetries"
  shows "stopped_after k (OllamaService_processTextStream jp svc agentPrompt content env) final"
proof -
  have start: "cancelled_at_start env = False"
    using quiet by (simp add: not_cancelled_before_def)
  show ?thesis
    unfolding OllamaService_processTextStream_def start
  proof (rule ollama_loop_stops [where err = err and rnd = "random env" and req = "ollama_text_request svc agentPrompt content True"])
    fix a assume "a < Suc k"
    then have "makeRequest (transport env a) = Inl (err a, False)"
      using fails by (simp add: request_fails_before_def)
    then show "ollama_stream_try jp (ollama_text_request svc agentPrompt content True) (transport env) a False =
        ([TokenRead False, Request (ollama_text_request svc agentPrompt content True)], Threw (err a) False)"
      by (rule ollama_stream_try_fails)
  next
    show "all_before k ollama_retryable err" by (rule retryable)
  next
    show "ollama_catch (baseUrl svc) ''text stream'' (random env k) k (err k) False = ([TokenRead False], Rethrow final)"
      by (rule last)
  next
    fix a assume "a < k"
    then show "\<not> cancelled_after_wait env a"
      using quiet by (simp add: not_cancelled_before_def)
  next
    show "k \<le> maxRetries" by (rule k)
  qed
qed

lemma OllamaService_generateScriptStream_stops:
  assumes quiet: "not_cancelled_before k env"
    and fails: "request_fails_before (Suc k) env err"
    and retryable: "all_before k ollama_retryable err"
    and last: "ollama_catch (baseUrl svc) ''multi-modal stream'' (random env k) k (err k) False = ([TokenRead False], Rethrow final)"
    and k: "k \<le> maxRetries"
  shows "stopped_after k (OllamaService_generateScriptStream jp svc agentPrompt parts env) final"
proof -
  have start: "cancelled_at_start env = False"
    using quiet by (simp add: not_cancelled_before_def)
  show ?thesis
    unfolding OllamaService_generateScriptStream_def start
  proof (rule ollama_loop_stops [where err = err and rnd = "random env" and req = "ollama_parts_request svc agentPrompt parts"])
    fix a assume "a < Suc k"
    then have "makeRequest (transport env a) = Inl (err a, False)"
      using fails by (simp add: request_fails_before_def)
    then show "ollama_stream_try jp (ollama_parts_request svc agentPrompt parts) (transport env) a False =
        ([TokenRead False, Request (ollama_parts_request svc agentPrompt parts)], Threw (err a) False)"
      by (rule ollama_stream_try_fails)
  next
    show "all_before k ollama_retryable err" by (rule retryable)
  next
    show "ollama_catch (baseUrl svc) ''multi-modal stream'' (random env k) k (err k) False = ([TokenRead False], Rethrow final)"
      by (rule last)
  next
    fix a assume "a < k"
    then show "\<not> cancelled_after_wait env a"
      using quiet by (simp add: not_cancelled_before_def)
  next
    show "k \<le> maxRetries" by (rule k)
  qed
qed

section \<open>Sample inputs satisfy the hypotheses\<close>

lemma constant_env_not_cancelled: "not_cancelled_before k (constant_env x)"
  by (simp add: not_cancelled_before_def constant_env_def)

lemma constant_env_rejects: "rejects_before k (constant_env (Rejects e False)) (always e)"
  by (simp add: rejects_before_def constant_env_def always_def)

lemma constant_env_request_fails:
  "makeRequest x = Inl (e, False) \<Longrightarrow> request_fails_before k (constant_env x) (always e)"
  by (simp add: request_fails_before_def constant_env_def always_def)

lemma all_before_always: "P e \<Longrightarrow> all_before k P (always e)"
  by (simp add: all_before_def always_def)

lemma quota_error_retryable: "gemini_retryable sample_parse quota_error"
  unfolding gemini_retryable_def quota_error_def thrown_def by code_simp

lemma server_error_retryable: "openai_retryable server_error"
  unfolding openai_retryable_def server_error_def thrown_def by code_simp

lemma server_error_ollama_retryable: "ollama_retryable server_error"
  unfolding ollama_retryable_def server_error_def thrown_def by code_simp

section \<open>Retry bound\<close>

text \<open>
  Claim C1, as the code has it. An operation whose token is never set and whose
  transport call rejects in every attempt, each time with an error that the \<open>catch\<close>
  block of its adapter retries, makes exactly \<open>maxRetries + 1 = 7\<close> transport calls with
  six sleeps between them and then rejects with the final error of the adapter. The
  errors an adapter retries are: for Gemini those it takes neither for a cancellation
  nor for an API key error, for OpenAI those that are no API key error, for Ollama those
  whose message contains neither \<open>fetch\<close> nor \<open>Network\<close>.
\<close>

theorem retry_bound:
  "(not_cancelled_before maxRetries genv \<and> rejects_before (Suc maxRetries) genv gerr
      \<and> all_before (Suc maxRetries) (gemini_retryable jp) gerr \<longrightarrow>
      stopped_after maxRetries (GeminiService_processText jp gsvc agentPrompt content genv)
        (gemini_final_error ''text'' (parseGeminiError jp (gerr maxRetries)))
      \<and> stopped_after maxRetries (GeminiService_processTextStream jp gsvc agentPrompt content genv)
        (gemini_final_error ''text stream'' (parseGeminiError jp (gerr maxRetries)))
      \<and> stopped_after maxRetries (GeminiService_generateScriptStream jp gsvc agentPrompt parts genv)
        (gemini_final_error ''multi-modal stream'' (parseGeminiError jp (gerr maxRetries))))
   \<and> (not_cancelled_before maxRetries oenv \<and> rejects_before (Suc maxRetries) oenv oerr
      \<and> all_before (Suc maxRetries) openai_retryable oerr \<longrightarrow>
      stopped_after maxRetries (OpenAIService_processText osvc agentPrompt content oenv)
        (openai_final_error ''text'' (oerr maxRetries)))
   \<and> (not_cancelled_before maxRetries senv \<and> rejects_before (Suc maxRetries) senv serr
      \<and> all_before (Suc maxRetries) openai_retryable serr \<longrightarrow>
      stopped_after maxRetries (OpenAIService_processTextStream osvc agentPrompt content senv)
        (openai_final_error ''text stream'' (serr maxRetries))
      \<and> stopped_after maxRetries (OpenAIService_generateScriptStream osvc agentPrompt parts senv)
        (openai_final_error ''multi-modal stream'' (serr maxRetries)))
   \<and> (not_cancelled_before maxRetries lenv \<and> request_fails_before (Suc maxRetries) lenv lerr
      \<and> all_before (Suc maxRetries) ollama_retryable lerr \<longrightarrow>
      stopped_after maxRetries (OllamaService_processText lsvc agentPrompt content lenv)
        (ollama_final_error ''text'' (lerr maxRetries)))
   \<and> (not_cancelled_before maxRetries tenv \<and> request_fails_before (Suc maxRetries) tenv terr
      \<and> all_before (Suc maxRetries) ollama_retryable terr \<longrightarrow>
      stopped_after maxRetries (OllamaService_processTextStream jp lsvc agentPrompt content tenv)
        (ollama_final_error ''text stream'' (terr maxRetries))
      \<and> stopped_after maxRetries (OllamaService_generateScriptStream jp lsvc agentPrompt parts tenv)
        (ollama_final_error ''multi-modal stream'' (terr maxRetries)))"
proof -
  have shrink: "\<And>P err. all_before (Suc maxRetries) P err \<Longrightarrow> all_before maxRetries P err"
    by (simp add: all_before_def)
  have at_last: "\<And>P err. all_before (Suc maxRetries) P err \<Longrightarrow> P (err maxRetries)"
    by (simp add: all_before_def)
  have gemini: "stopped_after maxRetries (GeminiService_processText jp gsvc agentPrompt content genv)
        (gemini_final_error ''text'' (parseGeminiError jp (gerr maxRetries)))
      \<and> stopped_after maxRetries (GeminiService_processTextStream jp gsvc agentPrompt content genv)
        (gemini_final_error ''text stream'' (parseGeminiError jp (gerr maxRetries)))
      \<and> stopped_after maxRetries (GeminiService_generateScriptStream jp gsvc agentPrompt parts genv)
        (gemini_final_error ''multi-modal stream'' (parseGeminiError jp (gerr maxRetries)))"
    if h: "not_cancelled_before maxRetries genv" "rejects_before (Suc maxRetries) genv gerr"
      "all_before (Suc maxRetries) (gemini_retryable jp) gerr"
    using GeminiService_processText_stops [OF h(1) h(2) shrink [OF h(3)]
            gemini_catch_final [OF at_last [OF h(3)]] order_refl]
          GeminiService_processTextStream_stops [OF h(1) h(2) shrink [OF h(3)]
            gemini_catch_final [OF at_last [OF h(3)]] order_refl]
          GeminiService_generateScriptStream_stops [OF h(1) h(2) shrink [OF h(3)]
            gemini_catch_final [OF at_last [OF h(3)]] order_refl]
    by blast
  have openai_text: "stopped_after maxRetries (OpenAIService_processText osvc agentPrompt content oenv)
        (openai_final_error ''text'' (oerr maxRetries))"
    if h: "not_cancelled_before maxRetries oenv" "rejects_before (Suc maxRetries) oenv oerr"
      "all_before (Suc maxRetries) openai_retryable oerr"
    using OpenAIService_processText_stops [OF h(1) h(2) shrink [OF h(3)]
            openai_catch_final [OF at_last [OF h(3)]] order_refl]
    by blast
  have openai_stream: "stopped_after maxRetries (OpenAIService_processTextStream osvc agentPrompt content senv)
        (openai_final_error ''text stream'' (serr maxRetries))
      \<and> stopped_after maxRetries (OpenAIService_generateScriptStream osvc agentPrompt parts senv)
        (openai_final_error ''multi-modal stream'' (serr maxRetries))"
    if h: "not_cancelled_before maxRetries senv" "rejects_before (Suc maxRetries) senv serr"
      "all_before (Suc maxRetries) openai_retryable serr"
    using OpenAIService_processTextStream_stops [OF h(1) h(2) shrink [OF h(3)]
            openai_catch_final [OF at_last [OF h(3)]] order_refl]
          OpenAIService_generateScriptStream_stops [OF h(1) h(2) shrink [OF h(3)]
            openai_catch_final [OF at_last [OF h(3)]] order_refl]
    by blast
  have ollama_text: "stopped_after maxRetries (OllamaService_processText lsvc agentPrompt content lenv)
        (ollama_final_error ''text'' (lerr maxRetries))"
    if h: "not_cancelled_before maxRetries lenv" "request_fails_before (Suc maxRetries) lenv lerr"
      "all_before (Suc maxRetries) ollama_retryable lerr"
    using OllamaService_processText_stops [OF h(1) h(2) shrink [OF h(3)]
            ollama_catch_final [OF at_last [OF h(3)]] order_refl]
    by blast
  have ollama_stream: "stopped_after maxRetries (OllamaService_processTextStream jp lsvc agentPrompt content tenv)
        (ollama_final_error ''text stream'' (terr maxRetries))
      \<and> stopped_after maxRetries (OllamaService_generateScriptStream jp lsvc agentPrompt parts tenv)
        (ollama_final_error ''multi-modal stream'' (terr maxRetries))"
    if h: "not_cancelled_before maxRetries tenv" "request_fails_before (Suc maxRetries) tenv terr"
      "all_before (Suc maxRetries) ollama_retryable terr"
    using OllamaService_processTextStream_stops [OF h(1) h(2) shrink [OF h(3)]
            ollama_catch_final [OF at_last [OF h(3)]] order_refl]
          OllamaService_generateScriptStream_stops [OF h(1) h(2) shrink [OF h(3)]
            ollama_catch_final [OF at_last [OF h(3)]] order_refl]
    by blast
  show ?thesis
    using gemini openai_text openai_stream ollama_text ollama_stream by blast
qed

lemma show_nat_500: "show_nat 500 = ''500''"
  by code_simp

lemma makeRequest_500:
  "makeRequest (HttpNotOk 500 (Inr ''internal error'') False) = Inl (ollama_500, False)"
  by (simp add: makeRequest_def ollama_500_def show_nat_500)

lemma ollama_500_retryable: "ollama_retryable ollama_500"
  unfolding ollama_retryable_def ollama_500_def by code_simp

theorem retry_bound_witness:
  "not_cancelled_before maxRetries gemini_quota_env
   \<and> rejects_before (Suc maxRetries) gemini_quota_env (always quota_error)
   \<and> all_before (Suc maxRetries) (gemini_retryable sample_parse) (always quota_error)
   \<and> stopped_after maxRetries
        (GeminiService_processText sample_parse sample_gemini ''prompt'' ''content'' gemini_quota_env)
        (gemini_final_error ''text'' (parseGeminiError sample_parse (always quota_error maxRetries)))
   \<and> stopped_after maxRetries
        (GeminiService_processTextStream sample_parse sample_gemini ''prompt'' ''content'' gemini_quota_env)
        (gemini_final_error ''text stream'' (parseGeminiError sample_parse (always quota_error maxRetries)))
   \<and> stopped_after maxRetries
        (GeminiService_generateScriptStream sample_parse sample_gemini ''prompt'' [TextPart ''content'']
           gemini_quota_env)
        (gemini_final_error ''multi-modal stream''
           (parseGeminiError sample_parse (always quota_error maxRetries)))
   \<and> not_cancelled_before maxRetries openai_failing_env
   \<and> rejects_before (Suc maxRetries) openai_failing_env (always server_error)
   \<and> all_before (Suc maxRetries) openai_retryable (always server_error)
   \<and> stopped_after maxRetries
        (OpenAIService_processText sample_openai ''prompt'' ''content'' openai_failing_env)
        (openai_final_error ''text'' (always server_error maxRetries))
   \<and> not_cancelled_before maxRetries openai_failing_stream_env
   \<and> rejects_before (Suc maxRetries) openai_failing_stream_env (always server_error)
   \<and> stopped_after maxRetries
        (OpenAIService_processTextStream sample_openai ''prompt'' ''content'' openai_failing_stream_env)
        (openai_final_error ''text stream'' (always server_error maxRetries))
   \<and> stopped_after maxRetries
        (OpenAIService_generateScriptStream sample_openai ''prompt'' [TextPart ''content'']
           openai_failing_stream_env)
        (openai_final_error ''multi-modal stream'' (always server_error maxRetries))
   \<and> not_cancelled_before maxRetries ollama_failing_env
   \<and> request_fails_before (Suc maxRetries) ollama_failing_env (always ollama_500)
   \<and> all_before (Suc maxRetries) ollama_retryable (always ollama_500)
   \<and> stopped_after maxRetries
        (OllamaService_processText sample_ollama ''prompt'' ''content'' ollama_failing_env)
        (ollama_final_error ''text'' (always ollama_500 maxRetries))
   \<and> not_cancelled_before maxRetries ollama_failing_stream_env
   \<and> request_fails_before (Suc maxRetries) ollama_failing_stream_env (always ollama_500)
   \<and> stopped_after maxRetries
        (OllamaService_processTextStream sample_parse sample_ollama ''prompt'' ''content''
           ollama_failing_stream_env)
        (ollama_final_error ''text stream'' (always ollama_500 maxRetries))
   \<and> stopped_after maxRetries
        (OllamaService_generateScriptStream sample_parse sample_ollama ''prompt'' [TextPart ''content'']
           ollama_failing_stream_env)
        (ollama_final_error ''multi-modal stream'' (always ollama_500 maxRetries))"
proof -
  have g1: "not_cancelled_before maxRetries gemini_quota_env"
    unfolding gemini_quota_env_def by (rule constant_env_not_cancelled)
  have g2: "rejects_before (Suc maxRetries) gemini_quota_env (always quota_error)"
    unfolding gemini_quota_env_def by (rule constant_env_rejects)
  have g3: "all_before (Suc maxRetries) (gemini_retryable sample_parse) (always quota_error)"
    using quota_error_retryable by (rule all_before_always)
  have o1: "not_cancelled_before maxRetries openai_failing_env"
    unfolding openai_failing_env_def by (rule constant_env_not_cancelled)
  have o2: "rejects_before (Suc maxRetries) openai_failing_env (always server_error)"
    unfolding openai_failing_env_def by (rule constant_env_rejects)
  have o3: "all_before (Suc maxRetries) openai_retryable (always server_error)"
    using server_error_retryable by (rule all_before_always)
  have s1: "not_cancelled_before maxRetries openai_failing_stream_env"
    unfolding openai_failing_stream_env_def by (rule constant_env_not_cancelled)
  have s2: "rejects_before (Suc maxRetries) openai_failing_stream_env (always server_error)"
    unfolding openai_failing_stream_env_def by (rule constant_env_rejects)
  have l1: "not_cancelled_before maxRetries ollama_failing_env"
    unfolding ollama_failing_env_def by (rule constant_env_not_cancelled)
  have l2: "request_fails_before (Suc maxRetries) ollama_failing_env (always ollama_500)"
    unfolding ollama_failing_env_def by (rule constant_env_request_fails [OF makeRequest_500])
  have l3: "all_before (Suc maxRetries) ollama_retryable (always ollama_500)"
    using ollama_500_retryable by (rule all_before_always)
  have t1: "not_cancelled_before maxRetries ollama_failing_stream_env"
    unfolding ollama_failing_stream_env_def by (rule constant_env_not_cancelled)
  have t2: "request_fails_before (Suc maxRetries) ollama_failing_stream_env (always ollama_500)"
    unfolding ollama_failing_stream_env_def by (rule constant_env_request_fails [OF makeRequest_500])
  show ?thesis
    using retry_bound [where genv = gemini_quota_env and gerr = "always quota_error"
        and jp = sample_parse and gsvc = sample_gemini and agentPrompt = "''prompt''"
        and content = "''content''" and parts = "[TextPart ''content'']"
        and oenv = openai_failing_env and oerr = "always server_error" and osvc = sample_openai
        and senv = openai_failing_stream_env and serr = "always server_error"
        and lenv = ollama_failing_env and lerr = "always ollama_500" and lsvc = sample_ollama
        and tenv = ollama_failing_stream_env and terr = "always ollama_500"]
      g1 g2 g3 o1 o2 o3 s1 s2 l1 l2 l3 t1 t2
    by blast
qed

text \<open>
  Claim C1 as it is stated fails on the Ollama adapter: an error whose message contains
  \<open>fetch\<close> is neither a cancellation nor an authorization error, and the adapter does
  not retry it. With nothing listening at the address, \<open>processTextStream\<close> makes one
  transport call, not seven.
\<close>

theorem retry_bound_counterexample:
  "not_cancelled_before maxRetries ollama_unreachable_stream_env
   \<and> request_fails_before (Suc maxRetries) ollama_unreachable_stream_env (always fetch_failed)
   \<and> err_message fetch_failed \<noteq> cancel_message
   \<and> \<not> openai_is_api_key_error fetch_failed
   \<and> length (requests (fst (OllamaService_processTextStream sample_parse sample_ollama
                 ''prompt'' ''content'' ollama_unreachable_stream_env))) = 1
   \<and> length (requests (fst (OllamaService_processTextStream sample_parse sample_ollama
                 ''prompt'' ''content'' ollama_unreachable_stream_env))) \<noteq> maxRetries + 1"
proof -
  have h1: "not_cancelled_before maxRetries ollama_unreachable_stream_env"
    unfolding ollama_unreachable_stream_env_def by (rule constant_env_not_cancelled)
  have h2: "request_fails_before (Suc maxRetries) ollama_unreachable_stream_env (always fetch_failed)"
    unfolding ollama_unreachable_stream_env_def
    by (rule constant_env_request_fails) (simp add: makeRequest_def)
  have h3: "err_message fetch_failed \<noteq> cancel_message"
    by (simp add: fetch_failed_def cancel_message_def)
  have h4: "\<not> openai_is_api_key_error fetch_failed"
    unfolding fetch_failed_def by code_simp
  have run: "length (requests (fst (OllamaService_processTextStream sample_parse sample_ollama
                 ''prompt'' ''content'' ollama_unreachable_stream_env))) = 1"
    unfolding ollama_unreachable_stream_env_def constant_env_def sample_ollama_def fetch_failed_def
    by code_simp
  show ?thesis using h1 h2 h3 h4 run by (simp add: maxRetries_def)
qed

section \<open>No retry on an API key error\<close>

lemma bad_key_error_unauthorized: "gemini_unauthorized sample_parse bad_key_error"
  unfolding gemini_unauthorized_def bad_key_error_def thrown_def by code_simp

lemma status_401_error_unauthorized: "openai_is_api_key_error status_401_error"
  unfolding status_401_error_def thrown_def by code_simp

lemma all_before_0: "all_before 0 P err"
  by (simp add: all_before_def)

text \<open>
  Claim C2, as the code has it. On the two cloud adapters, when an attempt's transport
  call rejects with an error that the adapter takes for an API key error (Gemini: parsed
  code 400 with status \<open>INVALID_ARGUMENT\<close> or a message containing \<open>api key\<close>; OpenAI:
  status 401 or a message containing \<open>api key\<close>) and the token is not set, the
  operation rejects at once with the authorization message of the adapter: after \<open>k\<close>
  retried attempts the operation has made \<open>k + 1\<close> transport calls, and for \<open>k = 0\<close>
  exactly one. The Ollama adapter has no such check.
\<close>

theorem no_retry_on_api_key_error:
  "(k \<le> maxRetries \<and> not_cancelled_before k genv \<and> rejects_before (Suc k) genv gerr
      \<and> all_before k (gemini_retryable jp) gerr \<and> gemini_unauthorized jp (gerr k) \<longrightarrow>
      stopped_after k (GeminiService_processText jp gsvc agentPrompt content genv)
        (new_Error gemini_api_key_message)
      \<and> stopped_after k (GeminiService_processTextStream jp gsvc agentPrompt content genv)
        (new_Error gemini_api_key_message)
      \<and> stopped_after k (GeminiService_generateScriptStream jp gsvc agentPrompt parts genv)
        (new_Error gemini_api_key_message))
   \<and> (k \<le> maxRetries \<and> not_cancelled_before k oenv \<and> rejects_before (Suc k) oenv oerr
      \<and> all_before k openai_retryable oerr \<and> openai_is_api_key_error (oerr k) \<longrightarrow>
      stopped_after k (OpenAIService_processText osvc agentPrompt content oenv)
        (new_Error openai_api_key_message))
   \<and> (k \<le> maxRetries \<and> not_cancelled_before k senv \<and> rejects_before (Suc k) senv serr
      \<and> all_before k openai_retryable serr \<and> openai_is_api_key_error (serr k) \<longrightarrow>
      stopped_after k (OpenAIService_processTextStream osvc agentPrompt content senv)
        (new_Error openai_api_key_message)
      \<and> stopped_after k (OpenAIService_generateScriptStream osvc agentPrompt parts senv)
        (new_Error openai_api_key_message))"
proof -
  have gemini: "stopped_after k (GeminiService_processText jp gsvc agentPrompt content genv)
        (new_Error gemini_api_key_message)
      \<and> stopped_after k (GeminiService_processTextStream jp gsvc agentPrompt content genv)
        (new_Error gemini_api_key_message)
      \<and> stopped_after k (GeminiService_generateScriptStream jp gsvc agentPrompt parts genv)
        (new_Error gemini_api_key_message)"
    if h: "k \<le> maxRetries" "not_cancelled_before k genv" "rejects_before (Suc k) genv gerr"
      "all_before k (gemini_retryable jp) gerr" "gemini_unauthorized jp (gerr k)"
    using GeminiService_processText_stops [OF h(2) h(3) h(4) gemini_catch_unauthorized [OF h(5)] h(1)]
          GeminiService_processTextStream_stops [OF h(2) h(3) h(4) gemini_catch_unauthorized [OF h(5)] h(1)]
          GeminiService_generateScriptStream_stops [OF h(2) h(3) h(4) gemini_catch_unauthorized [OF h(5)] h(1)]
    by blast
  have openai_text: "stopped_after k (OpenAIService_processText osvc agentPrompt content oenv)
        (new_Error openai_api_key_message)"
    if h: "k \<le> maxRetries" "not_cancelled_before k oenv" "rejects_before (Suc k) oenv oerr"
      "all_before k openai_retryable oerr" "openai_is_api_key_error (oerr k)"
    using OpenAIService_processText_stops [OF h(2) h(3) h(4) openai_catch_unauthorized [OF h(5)] h(1)]
    by blast
  have openai_stream: "stopped_after k (OpenAIService_processTextStream osvc agentPrompt content senv)
        (new_Error openai_api_key_message)
      \<and> stopped_after k (OpenAIService_generateScriptStream osvc agentPrompt parts senv)
        (new_Error openai_api_key_message)"
    if h: "k \<le> maxRetries" "not_cancelled_before k senv" "rejects_before (Suc k) senv serr"
      "all_before k openai_retryable serr" "openai_is_api_key_error (serr k)"
    using OpenAIService_processTextStream_stops [OF h(2) h(3) h(4) openai_catch_unauthorized [OF h(5)] h(1)]
          OpenAIService_generateScriptStream_stops [OF h(2) h(3) h(4) openai_catch_unauthorized [OF h(5)] h(1)]
    by blast
  show ?thesis using gemini openai_text openai_stream by blast
qed

theorem no_retry_on_api_key_error_witness:
  "0 \<le> maxRetries
   \<and> not_cancelled_before 0 gemini_bad_key_env
   \<and> rejects_before (Suc 0) gemini_bad_key_env (always bad_key_error)
   \<and> all_before 0 (gemini_retryable sample_parse) (always bad_key_error)
   \<and> gemini_unauthorized sample_parse (always bad_key_error 0)
   \<and> stopped_after 0
        (GeminiService_processText sample_parse sample_gemini ''prompt'' ''content'' gemini_bad_key_env)
        (new_Error gemini_api_key_message)
   \<and> stopped_after 0
        (GeminiService_processTextStream sample_parse sample_gemini ''prompt'' ''content''
           gemini_bad_key_env)
        (new_Error gemini_api_key_message)
   \<and> stopped_after 0
        (GeminiService_generateScriptStream sample_parse sample_gemini ''prompt'' [TextPart ''content'']
           gemini_bad_key_env)
        (new_Error gemini_api_key_message)
   \<and> not_cancelled_before 0 openai_401_env
   \<and> rejects_before (Suc 0) openai_401_env (always status_401_error)
   \<and> all_before 0 openai_retryable (always status_401_error)
   \<and> openai_is_api_key_error (always status_401_error 0)
   \<and> stopped_after 0 (OpenAIService_processText sample_openai ''prompt'' ''content'' openai_401_env)
        (new_Error openai_api_key_message)
   \<and> not_cancelled_before 0 openai_401_stream_env
   \<and> rejects_before (Suc 0) openai_401_stream_env (always status_401_error)
   \<and> stopped_after 0
        (OpenAIService_processTextStream sample_openai ''prompt'' ''content'' openai_401_stream_env)
        (new_Error openai_api_key_message)
   \<and> stopped_after 0
        (OpenAIService_generateScriptStream sample_openai ''prompt'' [TextPart ''content'']
           openai_401_stream_env)
        (new_Error openai_api_key_message)"
proof -
  have k: "0 \<le> maxRetries" by simp
  have g1: "not_cancelled_before 0 gemini_bad_key_env"
    unfolding gemini_bad_key_env_def by (rule constant_env_not_cancelled)
  have g2: "rejects_before (Suc 0) gemini_bad_key_env (always bad_key_error)"
    unfolding gemini_bad_key_env_def by (rule constant_env_rejects)
  have g3: "all_before 0 (gemini_retryable sample_parse) (always bad_key_error)"
    by (rule all_before_0)
  have g4: "gemini_unauthorized sample_parse (always bad_key_error 0)"
    by (simp add: always_def bad_key_error_unauthorized)
  have o1: "not_cancelled_before 0 openai_401_env"
    unfolding openai_401_env_def by (rule constant_env_not_cancelled)
  have o2: "rejects_before (Suc 0) openai_401_env (always status_401_error)"
    unfolding openai_401_env_def by (rule constant_env_rejects)
  have o3: "all_before 0 openai_retryable (always status_401_error)"
    by (rule all_before_0)
  have o4: "openai_is_api_key_error (always status_401_error 0)"
    by (simp add: always_def status_401_error_unauthorized)
  have s1: "not_cancelled_before 0 openai_401_stream_env"
    unfolding openai_401_stream_env_def by (rule constant_env_not_cancelled)
  have s2: "rejects_before (Suc 0) openai_401_stream_env (always status_401_error)"
    unfolding openai_401_stream_env_def by (rule constant_env_rejects)
  show ?thesis
    using no_retry_on_api_key_error [where k = 0 and genv = gemini_bad_key_env
        and gerr = "always bad_key_error" and jp = sample_parse and gsvc = sample_gemini
        and agentPrompt = "''prompt''" and content = "''content''"
        and parts = "[TextPart ''content'']"
        and oenv = openai_401_env and oerr = "always status_401_error" and osvc = sample_openai
        and senv = openai_401_stream_env and serr = "always status_401_error"]
      k g1 g2 g3 g4 o1 o2 o3 o4 s1 s2
    by blast
qed

text \<open>
  Claim C2 as it is stated fails on the third adapter: the Ollama \<open>catch\<close> block has no
  authorization check. An answer with status 401 is retried like any other failure:
  seven transport calls, and a final error that is not an authorization message.
\<close>

theorem no_retry_on_api_key_error_counterexample:
  "makeRequest (transport ollama_401_env 0) = Inl (ollama_401, False)
   \<and> length (requests (fst (OllamaService_processText sample_ollama ''prompt'' ''content'' ollama_401_env)))
       = 7
   \<and> snd (OllamaService_processText sample_ollama ''prompt'' ''content'' ollama_401_env)
       = Inl (new_Error ''Failed to process text with Ollama: Ollama API error: 401 - unauthorized'')"
proof -
  have show401: "show_nat 401 = ''401''" by code_simp
  have req: "makeRequest (HttpNotOk 401 (Inr ''unauthorized'') False) = Inl (ollama_401, False)"
    by (simp add: makeRequest_def ollama_401_def show401)
  have retryable: "ollama_retryable ollama_401"
    unfolding ollama_retryable_def ollama_401_def by code_simp
  have h1: "not_cancelled_before maxRetries ollama_401_env"
    unfolding ollama_401_env_def by (rule constant_env_not_cancelled)
  have h2: "request_fails_before (Suc maxRetries) ollama_401_env (always ollama_401)"
    unfolding ollama_401_env_def using req by (rule constant_env_request_fails)
  have h3: "all_before maxRetries ollama_retryable (always ollama_401)"
    using retryable by (rule all_before_always)
  have h4: "ollama_catch (baseUrl sample_ollama) ''text'' (random ollama_401_env maxRetries) maxRetries
              (always ollama_401 maxRetries) False =
            ([TokenRead False], Rethrow (ollama_final_error ''text'' ollama_401))"
    unfolding always_def using retryable by (rule ollama_catch_final)
  have "stopped_after maxRetries
          (OllamaService_processText sample_ollama ''prompt'' ''content'' ollama_401_env)
          (ollama_final_error ''text'' ollama_401)"
    using h1 h2 h3 h4 order_refl by (rule OllamaService_processText_stops)
  moreover have "ollama_final_error ''text'' ollama_401 =
      new_Error ''Failed to process text with Ollama: Ollama API error: 401 - unauthorized''"
    by (simp add: ollama_final_error_def ollama_401_def message_or_unknown_def new_Error_def)
  moreover have "makeRequest (transport ollama_401_env 0) = Inl (ollama_401, False)"
    by (simp add: ollama_401_env_def constant_env_def req)
  ultimately show ?thesis
    by (simp add: stopped_after_def maxRetries_def)
qed

section \<open>The connection error of the Ollama adapter\<close>

lemma js_includes_middle: "js_includes (a @ b @ c) b"
proof -
  have "length a \<in> set (upt 0 (Suc (length (a @ b @ c))))" by simp
  moreover have "prefix b (drop (length a) (a @ b @ c))" by simp
  ultimately show ?thesis unfolding js_includes_def by blast
qed

lemma connect_message_has_url: "js_includes (ollama_connect_message url) url"
  unfolding ollama_connect_message_def by (rule js_includes_middle)

lemma connect_message_has_guidance:
  "js_includes (ollama_connect_message url) ''Please ensure Ollama is running''"
proof -
  have "ollama_connect_message url =
          (''Cannot connect to Ollama at '' @ url @ ''. '') @ ''Please ensure Ollama is running''
            @ '' locally.''"
    by (simp add: ollama_connect_message_def)
  then show ?thesis by (simp only: js_includes_middle)
qed

lemma fetch_failed_connection: "ollama_is_connection_error fetch_failed"
  unfolding fetch_failed_def by code_simp

text \<open>
  Claim C5, as the code has it. When \<open>makeRequest\<close> fails with an error whose message
  contains \<open>fetch\<close> or \<open>Network\<close> (what \<open>fetch\<close> rejects with when the daemon cannot be
  reached) and the token is not set, \<open>processText\<close> of the Ollama adapter rejects at
  once, without retrying that failure: after \<open>k\<close> retried attempts it has made \<open>k + 1\<close>
  transport calls, and when the daemon is unreachable from the start exactly one. The
  message of the rejection contains the configured base URL and the guidance to ensure
  that Ollama is running.
\<close>

theorem ollama_connection_failure:
  "k \<le> maxRetries \<and> not_cancelled_before k env \<and> request_fails_before (Suc k) env err
     \<and> all_before k ollama_retryable err \<and> ollama_is_connection_error (err k) \<longrightarrow>
   stopped_after k (OllamaService_processText svc agentPrompt content env)
     (new_Error (ollama_connect_message (baseUrl svc)))
   \<and> js_includes (ollama_connect_message (baseUrl svc)) (baseUrl svc)
   \<and> js_includes (ollama_connect_message (baseUrl svc)) ''Please ensure Ollama is running''"
proof
  assume h: "k \<le> maxRetries \<and> not_cancelled_before k env \<and> request_fails_before (Suc k) env err
     \<and> all_before k ollama_retryable err \<and> ollama_is_connection_error (err k)"
  then have last: "ollama_catch (baseUrl svc) ''text'' (random env k) k (err k) False =
      ([TokenRead False], Rethrow (new_Error (ollama_connect_message (baseUrl svc))))"
    by (simp add: ollama_catch_connection)
  have "stopped_after k (OllamaService_processText svc agentPrompt content env)
          (new_Error (ollama_connect_message (baseUrl svc)))"
    using h last by (intro OllamaService_processText_stops [where err = err]) simp_all
  then show "stopped_after k (OllamaService_processText svc agentPrompt content env)
     (new_Error (ollama_connect_message (baseUrl svc)))
   \<and> js_includes (ollama_connect_message (baseUrl svc)) (baseUrl svc)
   \<and> js_includes (ollama_connect_message (baseUrl svc)) ''Please ensure Ollama is running''"
    using connect_message_has_url connect_message_has_guidance by simp
qed

theorem ollama_connection_failure_witness:
  "0 \<le> maxRetries
   \<and> not_cancelled_before 0 ollama_unreachable_env
   \<and> request_fails_before (Suc 0) ollama_unreachable_env (always fetch_failed)
   \<and> all_before 0 ollama_retryable (always fetch_failed)
   \<and> ollama_is_connection_error (always fetch_failed 0)
   \<and> stopped_after 0 (OllamaService_processText sample_ollama ''prompt'' ''content'' ollama_unreachable_env)
        (new_Error (ollama_connect_message (baseUrl sample_ollama)))
   \<and> js_includes (ollama_connect_message (baseUrl sample_ollama)) (baseUrl sample_ollama)
   \<and> js_includes (ollama_connect_message (baseUrl sample_ollama)) ''Please ensure Ollama is running''
   \<and> baseUrl sample_ollama = ''http://localhost:11434''"
proof -
  have k: "0 \<le> maxRetries" by simp
  have h1: "not_cancelled_before 0 ollama_unreachable_env"
    unfolding ollama_unreachable_env_def by (rule constant_env_not_cancelled)
  have h2: "request_fails_before (Suc 0) ollama_unreachable_env (always fetch_failed)"
    unfolding ollama_unreachable_env_def
    by (rule constant_env_request_fails) (simp add: makeRequest_def)
  have h3: "all_before 0 ollama_retryable (always fetch_failed)" by (rule all_before_0)
  have h4: "ollama_is_connection_error (always fetch_failed 0)"
    by (simp add: always_def fetch_failed_connection)
  have url: "baseUrl sample_ollama = ''http://localhost:11434''"
    by (simp add: sample_ollama_def new_OllamaService_def)
  show ?thesis
    using ollama_connection_failure [where k = 0 and env = ollama_unreachable_env
        and err = "always fetch_failed" and svc = sample_ollama and agentPrompt = "''prompt''"
        and content = "''content''"] k h1 h2 h3 h4 url
    by blast
qed

text \<open>
  Claim C5 as it is stated fails in its second half: the rejection does not come after
  the retry count of the other failures. With the daemon unreachable, \<open>processText\<close>
  rejects after a single transport call and without a sleep.
\<close>

theorem ollama_connection_failure_counterexample:
  "makeRequest (transport ollama_unreachable_env 0) = Inl (fetch_failed, False)
   \<and> requests (fst (OllamaService_processText sample_ollama ''prompt'' ''content'' ollama_unreachable_env))
       = [OllamaFetch ''http://localhost:11434/api/chat'' ''llama3.2''
            [OllamaMessage ''user'' (prompt_with_content ''prompt'' ''content'') None] False]
   \<and> waits (fst (OllamaService_processText sample_ollama ''prompt'' ''content'' ollama_unreachable_env))
       = []
   \<and> snd (OllamaService_processText sample_ollama ''prompt'' ''content'' ollama_unreachable_env)
       = Inl (new_Error
           ''Cannot connect to Ollama at http://localhost:11434. Please ensure Ollama is running locally.'')"
  unfolding ollama_unreachable_env_def constant_env_def sample_ollama_def fetch_failed_def
  by code_simp

section \<open>An answer without content\<close>

lemma normalizeOpenAI_empty: "normalizeOpenAI [] = []"
  by code_simp

lemma first_content_none: "no_message_content response \<Longrightarrow> first_content response = []"
  by (auto simp: no_message_content_def first_content_def split: list.splits option.splits)

lemma OpenAIService_processText_returns:
  assumes quiet: "not_cancelled_before k env"
    and fails: "rejects_before k env err"
    and retryable: "all_before k openai_retryable err"
    and answer: "transport env k = Resolves response"
    and k: "k \<le> maxRetries"
  shows "snd (OpenAIService_processText svc agentPrompt content env)
           = Inr (normalizeOpenAI (first_content response))"
proof -
  have start: "cancelled_at_start env = False"
    using quiet by (simp add: not_cancelled_before_def)
  show ?thesis
    unfolding OpenAIService_processText_def start
  proof (rule returned_after_rejections [where err = err and k = k
        and req = "openai_text_request svc agentPrompt content False"
        and d = "\<lambda>a. openai_delayTime (random env a) a (err a)"
        and msg = "\<lambda>a. retry_status ''The AI model is busy. Retrying in ''
                          (openai_delayTime (random env a) a (err a)) a"])
    fix a assume "a < k"
    then have "transport env a = Rejects (err a) False"
      using fails by (simp add: rejects_before_def)
    then show "openai_processText_try svc agentPrompt content (transport env) a False =
        ([TokenRead False, Request (openai_text_request svc agentPrompt content False)],
         Threw (err a) False)"
      by (rule openai_processText_try_rejects)
  next
    fix a assume a: "a < k"
    then have "openai_retryable (err a)" using retryable by (simp add: all_before_def)
    moreover have "a < maxRetries" using a k by simp
    ultimately show "openai_catch ''text'' (random env a) a (err a) False =
        ([TokenRead False, StatusUpdate (retry_status ''The AI model is busy. Retrying in ''
            (openai_delayTime (random env a) a (err a)) a)],
         Retry (openai_delayTime (random env a) a (err a)))"
      by (rule openai_catch_retry)
  next
    show "openai_processText_try svc agentPrompt content (transport env) k False =
        ([TokenRead False, Request (openai_text_request svc agentPrompt content False),
          StatusUpdate []], Returned (normalizeOpenAI (first_content response)))"
      by (simp add: openai_processText_try_def answer)
  next
    fix a assume "a < k"
    then show "\<not> cancelled_after_wait env a"
      using quiet by (simp add: not_cancelled_before_def)
  next
    show "k \<le> maxRetries" by (rule k)
  qed
qed

text \<open>
  Claim C10. When the answer to the request of \<open>OpenAIService.processText\<close> has no
  message content (no choice at all, or a first choice without a message or without its
  content), the operation resolves with the normalization of the empty string, which is
  the empty string. The answer may come in the first attempt or after \<open>k\<close> attempts that
  were rejected and retried; the token is not set meanwhile.
\<close>

theorem openai_empty_content:
  "k \<le> maxRetries \<and> not_cancelled_before k env \<and> rejects_before k env err
     \<and> all_before k openai_retryable err \<and> transport env k = Resolves response
     \<and> no_message_content response \<longrightarrow>
   snd (OpenAIService_processText svc agentPrompt content env) = Inr (normalizeOpenAI [])
   \<and> normalizeOpenAI [] = []"
proof
  assume h: "k \<le> maxRetries \<and> not_cancelled_before k env \<and> rejects_before k env err
     \<and> all_before k openai_retryable err \<and> transport env k = Resolves response
     \<and> no_message_content response"
  then have "snd (OpenAIService_processText svc agentPrompt content env)
           = Inr (normalizeOpenAI (first_content response))"
    by (intro OpenAIService_processText_returns [where err = err and k = k]) simp_all
  moreover have "first_content response = []"
    using h by (simp add: first_content_none)
  ultimately show "snd (OpenAIService_processText svc agentPrompt content env) = Inr (normalizeOpenAI [])
   \<and> normalizeOpenAI [] = []"
    by (simp add: normalizeOpenAI_empty)
qed

theorem openai_empty_content_witness:
  "0 \<le> maxRetries
   \<and> not_cancelled_before 0 openai_null_content_env
   \<and> rejects_before 0 openai_null_content_env (always server_error)
   \<and> all_before 0 openai_retryable (always server_error)
   \<and> transport openai_null_content_env 0 = Resolves [Some None]
   \<and> no_message_content [Some None]
   \<and> snd (OpenAIService_processText sample_openai ''prompt'' ''content'' openai_null_content_env)
       = Inr (normalizeOpenAI [])
   \<and> normalizeOpenAI [] = []"
proof -
  have k: "0 \<le> maxRetries" by simp
  have h1: "not_cancelled_before 0 openai_null_content_env"
    unfolding openai_null_content_env_def by (rule constant_env_not_cancelled)
  have h2: "rejects_before 0 openai_null_content_env (always server_error)"
    by (simp add: rejects_before_def)
  have h3: "all_before 0 openai_retryable (always server_error)" by (rule all_before_0)
  have h4: "transport openai_null_content_env 0 = Resolves [Some None]"
    by (simp add: openai_null_content_env_def constant_env_def)
  have h5: "no_message_content [Some None]" by (simp add: no_message_content_def)
  show ?thesis
    using openai_empty_content [where k = 0 and env = openai_null_content_env
        and err = "always server_error" and response = "[Some None]" and svc = sample_openai
        and agentPrompt = "''prompt''" and content = "''content''"] k h1 h2 h3 h4 h5
    by blast
qed

section \<open>Backoff delays\<close>

lemma jitter_bound:
  fixes rnd :: real
  assumes "0 \<le> rnd" and "rnd < 1"
  shows "nat \<lfloor>rnd * 5000\<rfloor> < 5000"
proof -
  have "rnd * 5000 < 5000" using assms by simp
  then have upper: "\<lfloor>rnd * 5000\<rfloor> < 5000" by (simp add: floor_less_iff)
  have lower: "0 \<le> \<lfloor>rnd * 5000\<rfloor>" using assms by simp
  from upper lower show ?thesis by linarith
qed

lemma gemini_catch_delay:
  "gemini_catch jp what rnd attempt e tok = (evs, Retry d) \<Longrightarrow>
   d = gemini_delayTime rnd attempt (parseGeminiError jp e)"
  by (auto simp: gemini_catch_def Let_def split: option.splits bool.splits if_splits)

lemma openai_catch_delay:
  "openai_catch what rnd attempt e tok = (evs, Retry d) \<Longrightarrow> d = openai_delayTime rnd attempt e"
  by (auto simp: openai_catch_def Let_def split: if_splits)

lemma ollama_catch_delay:
  "ollama_catch url what rnd attempt e tok = (evs, Retry d) \<Longrightarrow> d = base_delay attempt"
  by (auto simp: ollama_catch_def Let_def split: if_splits)

text \<open>
  Claim C4, as the code has it. Whenever the \<open>catch\<close> block of an attempt (0-based
  index \<open>attempt\<close>) ends with a sleep of \<open>d\<close> milliseconds, \<open>Math.random()\<close> returning a
  number \<open>rnd\<close> in \<open>[0, 1)\<close>:
  on the Gemini adapter \<open>d\<close> is \<open>15000 * 2^attempt\<close> plus the jitter
  \<open>floor (rnd * 5000)\<close>, which lies in \<open>[0, 5000)\<close>, when the parsed code is 429 or 503,
  and \<open>2000 * 2^attempt\<close> otherwise;
  on the OpenAI adapter \<open>d\<close> is the inflated delay for status 429 only, and
  \<open>2000 * 2^attempt\<close> for every other error, status 503 included;
  on the Ollama adapter \<open>d\<close> is \<open>2000 * 2^attempt\<close> for every error.
\<close>

theorem backoff_delay:
  "(gemini_catch jp what rnd attempt e tok = (evs, Retry d) \<and> 0 \<le> rnd \<and> rnd < 1 \<longrightarrow>
      (gemini_is_rate_limited (parseGeminiError jp e) \<longrightarrow>
         d = 15000 * 2 ^ attempt + nat \<lfloor>rnd * 5000\<rfloor> \<and> nat \<lfloor>rnd * 5000\<rfloor> < 5000)
      \<and> (\<not> gemini_is_rate_limited (parseGeminiError jp e) \<longrightarrow> d = 2000 * 2 ^ attempt))
   \<and> (openai_catch what rnd attempt e tok = (evs, Retry d) \<and> 0 \<le> rnd \<and> rnd < 1 \<longrightarrow>
      (err_status e = Some 429 \<longrightarrow>
         d = 15000 * 2 ^ attempt + nat \<lfloor>rnd * 5000\<rfloor> \<and> nat \<lfloor>rnd * 5000\<rfloor> < 5000)
      \<and> (err_status e \<noteq> Some 429 \<longrightarrow> d = 2000 * 2 ^ attempt))
   \<and> (ollama_catch url what rnd attempt e tok = (evs, Retry d) \<longrightarrow> d = 2000 * 2 ^ attempt)"
proof (intro conjI impI)
  assume h: "gemini_catch jp what rnd attempt e tok = (evs, Retry d) \<and> 0 \<le> rnd \<and> rnd < 1"
  then have "gemini_catch jp what rnd attempt e tok = (evs, Retry d)" by simp
  then have d: "d = gemini_delayTime rnd attempt (parseGeminiError jp e)"
    by (rule gemini_catch_delay)
  {
    assume "gemini_is_rate_limited (parseGeminiError jp e)"
    with d show "d = 15000 * 2 ^ attempt + nat \<lfloor>rnd * 5000\<rfloor>"
      by (simp add: gemini_delayTime_def inflated_delay_def)
    show "nat \<lfloor>rnd * 5000\<rfloor> < 5000" using h by (simp add: jitter_bound)
  }
  {
    assume "\<not> gemini_is_rate_limited (parseGeminiError jp e)"
    with d show "d = 2000 * 2 ^ attempt"
      by (simp add: gemini_delayTime_def base_delay_def)
  }
next
  assume h: "openai_catch what rnd attempt e tok = (evs, Retry d) \<and> 0 \<le> rnd \<and> rnd < 1"
  then have "openai_catch what rnd attempt e tok = (evs, Retry d)" by simp
  then have d: "d = openai_delayTime rnd attempt e"
    by (rule openai_catch_delay)
  {
    assume "err_status e = Some 429"
    with d show "d = 15000 * 2 ^ attempt + nat \<lfloor>rnd * 5000\<rfloor>"
      by (simp add: openai_delayTime_def inflated_delay_def)
    show "nat \<lfloor>rnd * 5000\<rfloor> < 5000" using h by (simp add: jitter_bound)
  }
  {
    assume "err_status e \<noteq> Some 429"
    with d show "d = 2000 * 2 ^ attempt"
      by (simp add: openai_delayTime_def base_delay_def)
  }
next
  assume "ollama_catch url what rnd attempt e tok = (evs, Retry d)"
  then have "d = base_delay attempt" by (rule ollama_catch_delay)
  then show "d = 2000 * 2 ^ attempt" by (simp add: base_delay_def)
qed

lemma overloaded_error_retryable: "openai_retryable overloaded_error"
  unfolding openai_retryable_def overloaded_error_def thrown_def by code_simp

lemma rate_limit_error_retryable: "openai_retryable rate_limit_error"
  unfolding openai_retryable_def rate_limit_error_def thrown_def by code_simp

lemma ollama_429_retryable: "ollama_retryable ollama_429"
  unfolding ollama_retryable_def ollama_429_def by code_simp

lemma server_error_gemini_retryable: "gemini_retryable sample_parse server_error"
  unfolding gemini_retryable_def server_error_def thrown_def by code_simp

lemma quota_error_rate_limited: "gemini_is_rate_limited (parseGeminiError sample_parse quota_error)"
  unfolding quota_error_def thrown_def by code_simp

lemma server_error_not_rate_limited:
  "\<not> gemini_is_rate_limited (parseGeminiError sample_parse server_error)"
  unfolding server_error_def thrown_def by code_simp

lemma two_less_maxRetries: "2 < maxRetries"
  by (simp add: maxRetries_def)

theorem backoff_delay_witness:
  "gemini_catch sample_parse ''text'' (1 / 2) 2 quota_error False =
     ([TokenRead False,
       StatusUpdate (retry_status ''The AI model is very busy. Patiently retrying in ''
                       (gemini_delayTime (1 / 2) 2 (parseGeminiError sample_parse quota_error)) 2)],
      Retry (gemini_delayTime (1 / 2) 2 (parseGeminiError sample_parse quota_error)))
   \<and> (0::real) \<le> 1 / 2 \<and> (1 / 2 :: real) < 1
   \<and> gemini_is_rate_limited (parseGeminiError sample_parse quota_error)
   \<and> gemini_delayTime (1 / 2) 2 (parseGeminiError sample_parse quota_error) = 62500
   \<and> openai_catch ''text'' (1 / 2) 2 overloaded_error False =
     ([TokenRead False,
       StatusUpdate (retry_status ''The AI model is busy. Retrying in ''
                       (openai_delayTime (1 / 2) 2 overloaded_error) 2)],
      Retry (openai_delayTime (1 / 2) 2 overloaded_error))
   \<and> err_status overloaded_error \<noteq> Some 429
   \<and> openai_delayTime (1 / 2) 2 overloaded_error = 8000
   \<and> ollama_catch ''http://localhost:11434'' ''text'' (1 / 2) 2 ollama_429 False =
     ([TokenRead False, StatusUpdate (retry_status ''Retrying in '' (base_delay 2) 2)],
      Retry (base_delay 2))
   \<and> base_delay 2 = 8000
   \<and> gemini_catch sample_parse ''text'' (1 / 2) 2 server_error False =
     ([TokenRead False,
       StatusUpdate (retry_status ''The AI model is very busy. Patiently retrying in ''
                       (gemini_delayTime (1 / 2) 2 (parseGeminiError sample_parse server_error)) 2)],
      Retry (gemini_delayTime (1 / 2) 2 (parseGeminiError sample_parse server_error)))
   \<and> \<not> gemini_is_rate_limited (parseGeminiError sample_parse server_error)
   \<and> gemini_delayTime (1 / 2) 2 (parseGeminiError sample_parse server_error) = 8000
   \<and> openai_catch ''text'' (1 / 2) 2 rate_limit_error False =
     ([TokenRead False,
       StatusUpdate (retry_status ''The AI model is busy. Retrying in ''
                       (openai_delayTime (1 / 2) 2 rate_limit_error) 2)],
      Retry (openai_delayTime (1 / 2) 2 rate_limit_error))
   \<and> err_status rate_limit_error = Some 429
   \<and> openai_delayTime (1 / 2) 2 rate_limit_error = 62500"
proof -
  have g: "gemini_catch sample_parse ''text'' (1 / 2) 2 quota_error False =
     ([TokenRead False,
       StatusUpdate (retry_status ''The AI model is very busy. Patiently retrying in ''
                       (gemini_delayTime (1 / 2) 2 (parseGeminiError sample_parse quota_error)) 2)],
      Retry (gemini_delayTime (1 / 2) 2 (parseGeminiError sample_parse quota_error)))"
    using quota_error_retryable two_less_maxRetries by (rule gemini_catch_retry)
  have g': "gemini_catch sample_parse ''text'' (1 / 2) 2 server_error False =
     ([TokenRead False,
       StatusUpdate (retry_status ''The AI model is very busy. Patiently retrying in ''
                       (gemini_delayTime (1 / 2) 2 (parseGeminiError sample_parse server_error)) 2)],
      Retry (gemini_delayTime (1 / 2) 2 (parseGeminiError sample_parse server_error)))"
    using server_error_gemini_retryable two_less_maxRetries by (rule gemini_catch_retry)
  have o: "openai_catch ''text'' (1 / 2) 2 overloaded_error False =
     ([TokenRead False,
       StatusUpdate (retry_status ''The AI model is busy. Retrying in ''
                       (openai_delayTime (1 / 2) 2 overloaded_error) 2)],
      Retry (openai_delayTime (1 / 2) 2 overloaded_error))"
    using overloaded_error_retryable two_less_maxRetries by (rule openai_catch_retry)
  have o': "openai_catch ''text'' (1 / 2) 2 rate_limit_error False =
     ([TokenRead False,
       StatusUpdate (retry_status ''The AI model is busy. Retrying in ''
                       (openai_delayTime (1 / 2) 2 rate_limit_error) 2)],
      Retry (openai_delayTime (1 / 2) 2 rate_limit_error))"
    using rate_limit_error_retryable two_less_maxRetries by (rule openai_catch_retry)
  have l: "ollama_catch ''http://localhost:11434'' ''text'' (1 / 2) 2 ollama_429 False =
     ([TokenRead False, StatusUpdate (retry_status ''Retrying in '' (base_delay 2) 2)],
      Retry (base_delay 2))"
    using ollama_429_retryable two_less_maxRetries by (rule ollama_catch_retry)
  have s: "err_status overloaded_error \<noteq> Some 429" "err_status rate_limit_error = Some 429"
    by (simp_all add: overloaded_error_def rate_limit_error_def thrown_def)
  have r: "(0::real) \<le> 1 / 2" "(1 / 2 :: real) < 1" by simp_all
  have first: "gemini_delayTime (1 / 2) 2 (parseGeminiError sample_parse quota_error)
                 = 15000 * 2 ^ 2 + nat \<lfloor>(1 / 2 :: real) * 5000\<rfloor>"
      "openai_delayTime (1 / 2) 2 overloaded_error = 2000 * 2 ^ 2"
      "base_delay 2 = 2000 * 2 ^ 2"
    using backoff_delay [where jp = sample_parse and what = "''text''" and rnd = "1 / 2"
        and attempt = 2 and e = quota_error and tok = False
        and evs = "[TokenRead False,
          StatusUpdate (retry_status ''The AI model is very busy. Patiently retrying in ''
                          (gemini_delayTime (1 / 2) 2 (parseGeminiError sample_parse quota_error)) 2)]"
        and d = "gemini_delayTime (1 / 2) 2 (parseGeminiError sample_parse quota_error)"]
      backoff_delay [where what = "''text''" and rnd = "1 / 2"
        and attempt = 2 and e = overloaded_error and tok = False
        and evs = "[TokenRead False,
          StatusUpdate (retry_status ''The AI model is busy. Retrying in ''
                          (openai_delayTime (1 / 2) 2 overloaded_error) 2)]"
        and d = "openai_delayTime (1 / 2) 2 overloaded_error"]
      backoff_delay [where url = "''http://localhost:11434''" and what = "''text''" and rnd = "1 / 2"
        and attempt = 2 and e = ollama_429 and tok = False
        and evs = "[TokenRead False, StatusUpdate (retry_status ''Retrying in '' (base_delay 2) 2)]"
        and d = "base_delay 2"]
      g o l s r quota_error_rate_limited
    by blast+
  have second: "gemini_delayTime (1 / 2) 2 (parseGeminiError sample_parse server_error) = 2000 * 2 ^ 2"
      "openai_delayTime (1 / 2) 2 rate_limit_error
         = 15000 * 2 ^ 2 + nat \<lfloor>(1 / 2 :: real) * 5000\<rfloor>"
    using backoff_delay [where jp = sample_parse and what = "''text''" and rnd = "1 / 2"
        and attempt = 2 and e = server_error and tok = False
        and evs = "[TokenRead False,
          StatusUpdate (retry_status ''The AI model is very busy. Patiently retrying in ''
                          (gemini_delayTime (1 / 2) 2 (parseGeminiError sample_parse server_error)) 2)]"
        and d = "gemini_delayTime (1 / 2) 2 (parseGeminiError sample_parse server_error)"]
      backoff_delay [where what = "''text''" and rnd = "1 / 2"
        and attempt = 2 and e = rate_limit_error and tok = False
        and evs = "[TokenRead False,
          StatusUpdate (retry_status ''The AI model is busy. Retrying in ''
                          (openai_delayTime (1 / 2) 2 rate_limit_error) 2)]"
        and d = "openai_delayTime (1 / 2) 2 rate_limit_error"]
      g' o' s r server_error_not_rate_limited
    by blast+
  have nums: "(15000 * 2 ^ 2 + nat \<lfloor>(1 / 2 :: real) * 5000\<rfloor>) = 62500"
      "(2000 * 2 ^ 2 :: nat) = 8000"
    by simp_all
  show ?thesis
    using g g' o o' l s r quota_error_rate_limited server_error_not_rate_limited first second nums
    by simp
qed

text \<open>
  Claim C4 as it is stated fails on two adapters. For an error with status 503 at
  attempt 0 the OpenAI adapter sleeps 2000 ms, not 15000 ms and more; the Ollama
  adapter sleeps 2000 ms for an answer with status 429.
\<close>

theorem backoff_delay_counterexample:
  "err_status overloaded_error = Some 503
   \<and> snd (openai_catch ''text'' (1 / 2) 0 overloaded_error False) = Retry 2000
   \<and> snd (ollama_catch ''http://localhost:11434'' ''text'' (1 / 2) 0 ollama_429 False) = Retry 2000
   \<and> \<not> (15000 * 2 ^ 0 \<le> (2000::nat))"
proof -
  have zero: "0 < maxRetries" by (simp add: maxRetries_def)
  have "snd (openai_catch ''text'' (1 / 2) 0 overloaded_error False)
          = Retry (openai_delayTime (1 / 2) 0 overloaded_error)"
    using openai_catch_retry [OF overloaded_error_retryable zero] by simp
  moreover have "openai_delayTime (1 / 2) 0 overloaded_error = 2000"
    by (simp add: openai_delayTime_def overloaded_error_def thrown_def base_delay_def)
  moreover have "snd (ollama_catch ''http://localhost:11434'' ''text'' (1 / 2) 0 ollama_429 False)
          = Retry (base_delay 0)"
    using ollama_catch_retry [OF ollama_429_retryable zero] by simp
  moreover have "base_delay 0 = 2000" by (simp add: base_delay_def)
  moreover have "err_status overloaded_error = Some 503"
    by (simp add: overloaded_error_def thrown_def)
  ultimately show ?thesis by simp
qed

section \<open>The requests of a run\<close>

lemma for_await_requests_aux:
  "for_await text_of emit s fullText = (evs, r) \<Longrightarrow> requests evs = []"
proof (induction s arbitrary: fullText evs r)
  case StreamDone
  then show ?case by simp
next
  case (StreamThrows e tok)
  then show ?case by simp
next
  case (StreamChunk chunk tok rest)
  show ?case
  proof (cases tok)
    case True
    with StreamChunk.prems show ?thesis by auto
  next
    case False
    show ?thesis
    proof (cases "text_of chunk = []")
      case True
      obtain evs' r' where rec: "for_await text_of emit rest fullText = (evs', r')"
        by (cases "for_await text_of emit rest fullText")
      with StreamChunk.prems False True have "evs = TokenRead False # evs'" by auto
      moreover have "requests evs' = []" using StreamChunk.IH rec by blast
      ultimately show ?thesis by simp
    next
      case nonempty: False
      obtain evs' r' where rec: "for_await text_of emit rest (fullText @ text_of chunk) = (evs', r')"
        by (cases "for_await text_of emit rest (fullText @ text_of chunk)")
      with StreamChunk.prems False nonempty
      have "evs = TokenRead False # (if emit then [OnChunk (text_of chunk)] else []) @ evs'"
        by (auto simp: Let_def)
      moreover have "requests evs' = []" using StreamChunk.IH rec by blast
      ultimately show ?thesis by simp
    qed
  qed
qed

lemma stream_try_requests:
  "set (requests (fst (stream_try req text_of emit nrm call a tok))) \<subseteq> {req}"
  by (auto simp: stream_try_def dest: for_await_requests_aux
      split: call_outcome.splits prod.splits sum.splits)

lemma retry_loop_requests:
  assumes T: "\<And>a tok. set (requests (fst (T a tok))) \<subseteq> {req}"
    and C: "\<And>a e tok. requests (fst (C a e tok)) = []"
  shows "set (requests (fst (retry_loop T C A W a tok le))) \<subseteq> {req}"
proof (induction "Suc maxRetries - a" arbitrary: a tok le)
  case 0
  then have "\<not> a \<le> maxRetries" by simp
  then show ?case by (subst retry_loop.simps) simp
next
  case (Suc n)
  then have a: "a \<le> maxRetries" and n: "n = Suc maxRetries - (a + 1)" by simp_all
  obtain evs r where t: "T a tok = (evs, r)" by (cases "T a tok")
  have evs: "set (requests evs) \<subseteq> {req}" using T [of a tok] t by simp
  show ?case
  proof (cases r)
    case (Returned res)
    then show ?thesis using a t evs by (subst retry_loop.simps) simp
  next
    case (Threw e tok')
    obtain cevs cr where c: "C a e tok' = (cevs, cr)" by (cases "C a e tok'")
    have cevs: "requests cevs = []" using C [of a e tok'] c by simp
    show ?thesis
    proof (cases cr)
      case (Rethrow e')
      then show ?thesis using a t Threw c evs cevs by (subst retry_loop.simps) simp
    next
      case (Retry d)
      have ih: "set (requests (fst (retry_loop T C A W (a + 1) (W a) (Some e)))) \<subseteq> {req}"
        by (rule Suc.hyps(1) [OF n])
      show ?thesis
        using a t Threw c Retry evs cevs ih
        by (subst retry_loop.simps) (auto split: prod.splits)
    qed
  qed
qed

lemma retry_loop_starts:
  assumes "T 0 False = (TokenRead False # Request req # evs, r)"
  shows "\<exists>rest. fst (retry_loop T C A W 0 False None) = TokenRead False # Request req # rest"
  using assms
  by (subst retry_loop.simps)
     (auto simp: maxRetries_def split: try_result.splits catch_result.splits prod.splits)

lemma stream_try_starts:
  "\<exists>evs r. stream_try req text_of emit nrm call 0 False = (TokenRead False # Request req # evs, r)"
  by (auto simp: stream_try_def split: call_outcome.splits prod.splits sum.splits)

lemma openai_processText_try_starts:
  "\<exists>evs r. openai_processText_try svc agentPrompt content call 0 False =
     (TokenRead False # Request (openai_text_request svc agentPrompt content False) # evs, r)"
  by (auto simp: openai_processText_try_def split: call_outcome.splits)

lemma openai_processText_try_requests:
  "set (requests (fst (openai_processText_try svc agentPrompt content call a tok)))
     \<subseteq> {openai_text_request svc agentPrompt content False}"
  by (auto simp: openai_processText_try_def split: call_outcome.splits)

lemma openai_catch_requests: "requests (fst (openai_catch what rnd a e tok)) = []"
  by (simp add: openai_catch_def Let_def)

lemma gemini_catch_requests: "requests (fst (gemini_catch jp what rnd a e tok)) = []"
  by (simp add: gemini_catch_def Let_def split: option.splits bool.splits)

lemma ollama_catch_requests: "requests (fst (ollama_catch url what rnd a e tok)) = []"
  by (simp add: ollama_catch_def Let_def)

end
